theory Spec2Isabelle
  imports Complex_Main "HOL-Library.Sublist" "HOL-Library.Word"
begin

section \<open>Data model\<close>

text \<open>
  A shallow embedding of the request pipeline of the xMatters Go client
  (\<^verbatim>\<open>xmatters.go\<close>, \<^verbatim>\<open>errors.go\<close>, \<^verbatim>\<open>api_options.go\<close>, \<^verbatim>\<open>groups.go\<close>,
  \<^verbatim>\<open>group_roster.go\<close> and the pagination structs).

  Conventions.
  \<^item> A Go pointer \<^verbatim>\<open>*T\<close> is a \<open>T option\<close>; \<open>None\<close> is \<^verbatim>\<open>nil\<close>.
  \<^item> A Go slice is a list; the \<^verbatim>\<open>nil\<close> slice and the empty slice are both \<open>[]\<close>
    (\<^verbatim>\<open>len\<close>, \<^verbatim>\<open>range\<close> and \<^verbatim>\<open>append\<close> do not tell them apart).
  \<^item> A Go multiple return \<^verbatim>\<open>(v, err)\<close> is a pair whose second component is an
    \<open>error option\<close>; \<open>None\<close> is the \<^verbatim>\<open>nil\<close> error.
  \<^item> A run-time panic (nil pointer dereference) is the outcome \<open>Panic\<close>.
  \<^item> A byte slice and a string are both \<open>string\<close> (a list of bytes).
\<close>

type_synonym bytes = string

datatype 'a outcome = Return 'a | Panic

subsection \<open>Errors (errors.go)\<close>

record XMattersError =
  Code :: int
  Reason :: string
  Message :: string
  Subcode :: string

text \<open>
  The error values that flow through the client: an \<^verbatim>\<open>XMattersError\<close> used as an
  error, the result of \<^verbatim>\<open>fmt.Errorf\<close> wrapping an error with \<^verbatim>\<open>%w\<close> between a
  prefix and a suffix, and an error made by a library outside the repository
  (transport, JSON codec, request construction).
\<close>

datatype error =
    XMErr XMattersError
  | Errorf string error string
  | ExternalError string

subsection \<open>HTTP requests and responses\<close>

text \<open>
  The dynamic type of the \<^verbatim>\<open>body interface{}\<close> argument of \<^verbatim>\<open>Request\<close>, as the type
  assertions of the code see it: a value that implements \<^verbatim>\<open>io.Reader\<close>, a \<^verbatim>\<open>[]byte\<close>,
  or any other value. \<open>'v\<close> is the type of the Go values themselves.
\<close>

datatype 'v body = IOReader 'v | ByteSlice bytes | OtherValue 'v

text \<open>The \<^verbatim>\<open>io.Reader\<close> handed to \<^verbatim>\<open>http.NewRequest\<close>: the caller's own reader, or
  a \<^verbatim>\<open>bytes.NewReader\<close> over a byte slice.\<close>

datatype 'v reader = CallerReader 'v | bytes_NewReader bytes

record 'v request =
  Method :: string
  URL :: string
  Body :: "'v reader option"
  Header :: "string \<rightharpoonup> string list"

text \<open>A response as \<^verbatim>\<open>Request\<close> reads it: the status code, and what
  \<^verbatim>\<open>io.ReadAll(response.Body)\<close> gives (the bytes, or a read error).\<close>

record response =
  StatusCode :: int
  RespBody :: "error + bytes"

subsection \<open>The client (xmatters.go)\<close>

text \<open>\<^verbatim>\<open>rate.Limiter\<close> as built by \<^verbatim>\<open>rate.NewLimiter(limit, burst)\<close>.\<close>

record Limiter =
  limit :: real
  burst :: int

record RetryPolicy =
  MaxRetries :: int
  MinRetryDelay :: "64 word"
  MaxRetryDelay :: "64 word"

text \<open>
  \<^verbatim>\<open>XMattersAPI\<close>. The field \<open>httpClient\<close> is the \<^verbatim>\<open>Do\<close> method of the
  \<^verbatim>\<open>*http.Client\<close>: it takes a request and the state \<open>'w\<close> of the world outside the
  process (network and server) and gives a response or a transport error, and the new
  state of the world. \<open>BaseURL\<close> and \<open>UserAgent\<close> are \<^verbatim>\<open>*string\<close> in the source and
  are set by \<^verbatim>\<open>newClient\<close> in every client the package can build; they are plain
  strings here.
\<close>

record ('w, 'v) XMattersAPI =
  Username :: "string option"
  Password :: "string option"
  Token :: "string option"
  AuthType :: "string option"
  BaseURL :: string
  UserAgent :: string
  headers :: "string \<rightharpoonup> string list"
  httpClient :: "'v request \<Rightarrow> 'w \<Rightarrow> (error + response) \<times> 'w"
  rateLimiter :: "Limiter option"
  retryPolicy :: RetryPolicy
  Debug :: "bool option"

text \<open>
  The state threaded through every operation: the world the transport talks to, and the
  trace of the requests handed to \<^verbatim>\<open>httpClient.Do\<close> so far, oldest first.
\<close>

record ('w, 'v) net =
  world :: 'w
  calls :: "'v request list"

subsection \<open>Pagination (groups.go, group_roster.go)\<close>

record PaginationLinks =
  Next :: "string option"
  Previous :: "string option"
  Self :: "string option"

record Pagination =
  Count :: "int option"
  Total :: "int option"
  Links :: "PaginationLinks option"

text \<open>\<^verbatim>\<open>GroupPagination\<close> embeds \<^verbatim>\<open>*Pagination\<close> (a pointer). \<open>'g\<close> is the element
  type \<^verbatim>\<open>*Group\<close>; the walk never looks inside an element.\<close>

record 'g GroupPagination =
  GroupPagination_Pagination :: "Pagination option"
  Groups :: "'g list"

record GroupMember =
  GroupMember_ID :: "string option"
  MemberType :: "string option"

record GroupReference =
  GroupReference_ID :: "string option"
  GroupReference_TargetName :: "string option"
  GroupReference_RecipientType :: "string option"
  GroupType :: "string option"

text \<open>\<^verbatim>\<open>RecipientReference\<close>, with the three fields every recipient has; the optional
  fields of the source are never read by the operations modelled here.\<close>

record RecipientReference =
  RecipientReference_ID :: "string option"
  RecipientReference_TargetName :: "string option"
  RecipientReference_RecipientType :: "string option"

text \<open>\<^verbatim>\<open>GroupMembership\<close> (its \<^verbatim>\<open>Shifts\<close> are never read here).\<close>

record GroupMembership =
  GroupMembership_Group :: GroupReference
  Member :: RecipientReference

text \<open>\<^verbatim>\<open>GroupMembershipPagination\<close> embeds \<^verbatim>\<open>Pagination\<close> by value: a record
  extension.\<close>

record GroupMembershipPagination = Pagination +
  Memberships :: "GroupMembership option list"

record GroupRoster =
  GroupRoster_ID :: "string option"
  GroupRoster_Group :: "GroupReference option"
  Members :: "GroupMember option list"

subsection \<open>Libraries outside the repository\<close>

text \<open>
  The functions of the Go standard library and of third-party packages that the code
  calls, as parameters:
  \<^item> \<open>json_Marshal\<close>: \<^verbatim>\<open>json.Marshal\<close> on a dynamic value;
  \<^item> \<open>NewRequest_error\<close>: the error of \<^verbatim>\<open>http.NewRequest(method, url, _)\<close>, if any;
  \<^item> \<open>json_Unmarshal_*\<close>: \<^verbatim>\<open>json.Unmarshal\<close> into a zero value of the named type;
  \<^item> \<open>url_String\<close>: \<^verbatim>\<open>(&url.URL{Path: p, RawQuery: q}).String()\<close>;
  \<^item> \<open>retryablehttp_StandardClient\<close>: the client
    \<^verbatim>\<open>retryablehttp.NewClient().StandardClient()\<close>, with the library's default retry
    settings.
\<close>

record ('w, 'v, 'g) extern =
  json_Marshal :: "'v body \<Rightarrow> error + bytes"
  NewRequest_error :: "string \<Rightarrow> string \<Rightarrow> error option"
  json_Unmarshal_XMattersError :: "bytes \<Rightarrow> error + XMattersError"
  json_Unmarshal_GroupPagination :: "bytes \<Rightarrow> error + 'g GroupPagination"
  json_Unmarshal_GroupMembershipPagination :: "bytes \<Rightarrow> error + GroupMembershipPagination"
  json_Unmarshal_GroupMember :: "bytes \<Rightarrow> error + GroupMember"
  url_String :: "string \<Rightarrow> string \<Rightarrow> string"
  retryablehttp_StandardClient :: "'v request \<Rightarrow> 'w \<Rightarrow> (error + response) \<times> 'w"

section \<open>Constants and errors\<close>

definition defaultBasePath :: string where
  "defaultBasePath = ''/api/xm/1''"

definition ContentJSON :: string where
  "ContentJSON = ''application/json''"

definition StatusOK :: int where "StatusOK = 200"
definition StatusCreated :: int where "StatusCreated = 201"
definition StatusNoContent :: int where "StatusNoContent = 204"
definition StatusUnauthorized :: int where "StatusUnauthorized = 401"

definition Version :: string where "Version = ''1''"

definition http_MethodGet :: string where "http_MethodGet = ''GET''"
definition http_MethodPost :: string where "http_MethodPost = ''POST''"
definition http_MethodDelete :: string where "http_MethodDelete = ''DELETE''"

definition ErrNoContent :: XMattersError where
  "ErrNoContent =
     \<lparr>Code = StatusNoContent, Reason = ''No Content'',
      Message = ''A resource was not found in response to a DELETE request.'',
      Subcode = ''''\<rparr>"

definition ErrInavlidCredentials :: XMattersError where
  "ErrInavlidCredentials =
     \<lparr>Code = StatusUnauthorized, Reason = ''Unauthorized'',
      Message = ''Invalid Credentials'', Subcode = ''''\<rparr>"

definition errUnmarshalError :: string where
  "errUnmarshalError = ''error unmarshalling the JSON response''"

definition errUnmarshalErrorBody :: string where
  "errUnmarshalErrorBody = ''error unmarshalling the JSON response error body''"

text \<open>\<^verbatim>\<open>newUnmarshalError\<close>; the argument is what \<^verbatim>\<open>getFunctionName\<close> finds on the
  call stack, the name of the calling method.\<close>

definition newUnmarshalError :: "string \<Rightarrow> error" where
  "newUnmarshalError caller =
     XMErr \<lparr>Code = 0, Reason = ''Internal Server Error in '' @ caller,
            Message = errUnmarshalError, Subcode = ''''\<rparr>"

definition newXMattersError :: "('w, 'v, 'g) extern \<Rightarrow> bytes \<Rightarrow> error" where
  "newXMattersError X body =
     (case json_Unmarshal_XMattersError X body of
        Inl err \<Rightarrow>
          Errorf (errUnmarshalErrorBody @ '' in xMatters Error Construction: '') err
                 ('' '' @ [CHR 0x0A] @ body)
      | Inr xmerr \<Rightarrow> XMErr xmerr)"

section \<open>The request executor (xmatters.go)\<close>

text \<open>\<^verbatim>\<open>http.NewRequest\<close>: an empty method means GET; the headers start empty.\<close>

definition http_NewRequest ::
  "('w, 'v, 'g) extern \<Rightarrow> string \<Rightarrow> string \<Rightarrow> 'v reader option \<Rightarrow> error + 'v request" where
  "http_NewRequest X method url reqBody =
     (case NewRequest_error X method url of
        Some err \<Rightarrow> Inl err
      | None \<Rightarrow>
          Inr \<lparr>Method = (if method = [] then ''GET'' else method), URL = url,
               Body = reqBody, Header = Map.empty\<rparr>)"

text \<open>\<^verbatim>\<open>copyHeader\<close>: every key of the source overwrites the target's.\<close>

definition copyHeader ::
  "(string \<rightharpoonup> string list) \<Rightarrow> (string \<rightharpoonup> string list) \<Rightarrow> (string \<rightharpoonup> string list)" where
  "copyHeader target source = target ++ source"

text \<open>
  \<^verbatim>\<open>Request\<close>, in the three steps of its body.

  First the request body is chosen by type assertion (the block under
  \<^verbatim>\<open>if body != nil\<close>): a reader is used as it is, a byte slice is wrapped in a reader,
  anything else is marshalled to JSON.
\<close>

definition Request_reqBody ::
  "('w, 'v, 'g) extern \<Rightarrow> 'v body option \<Rightarrow> error + 'v reader option" where
  "Request_reqBody X body =
     (case body of
        None \<Rightarrow> Inr None
      | Some (IOReader r) \<Rightarrow> Inr (Some (CallerReader r))
      | Some (ByteSlice paramBytes) \<Rightarrow> Inr (Some (bytes_NewReader paramBytes))
      | Some (OtherValue v) \<Rightarrow>
          (case json_Marshal X (OtherValue v) of
             Inl err \<Rightarrow> Inl (Errorf ''error marshalling body to JSON: '' err '''')
           | Inr jsonBody \<Rightarrow> Inr (Some (bytes_NewReader jsonBody))))"

text \<open>Last, the response is classified (from \<^verbatim>\<open>response.StatusCode == StatusNoContent\<close>
  to the end of the function).\<close>

definition Request_response ::
  "('w, 'v, 'g) extern \<Rightarrow> response \<Rightarrow> bytes option \<times> error option" where
  "Request_response X response =
     (if StatusCode response = StatusNoContent
      then (None, Some (XMErr ErrNoContent))
      else if StatusCode response = StatusUnauthorized
      then (None, Some (XMErr ErrInavlidCredentials))
      else (case RespBody response of
              Inl err \<Rightarrow> (None, Some (Errorf ''unable to read request body: '' err ''''))
            | Inr respBody \<Rightarrow>
                if StatusCode response \<noteq> StatusOK \<and> StatusCode response \<noteq> StatusCreated
                then (None, Some (newXMattersError X respBody))
                else (Some respBody, None)))"

text \<open>In between, the request is built, given its headers, and sent; the state after
  the call has the new world and the request added to the trace.\<close>

definition Request ::
  "('w, 'v, 'g) extern \<Rightarrow> ('w, 'v) XMattersAPI \<Rightarrow> string \<Rightarrow> string \<Rightarrow> string \<Rightarrow>
   'v body option \<Rightarrow> ('w, 'v) net \<Rightarrow> (bytes option \<times> error option) \<times> ('w, 'v) net" where
  "Request X xmatters httpMethod uri contentType body s =
     (case Request_reqBody X body of
        Inl err \<Rightarrow> ((None, Some err), s)
      | Inr reqBody \<Rightarrow>
          (case http_NewRequest X httpMethod (BaseURL xmatters @ uri) reqBody of
             Inl err \<Rightarrow> ((None, Some (Errorf ''HTTP request creation failed: '' err '''')), s)
           | Inr request0 \<Rightarrow>
               (let requestHeaders =
                      copyHeader
                        [''Content-Type'' \<mapsto> [contentType], ''User-Agent'' \<mapsto> [UserAgent xmatters]]
                        (headers xmatters);
                    request = request0\<lparr>Header := requestHeaders\<rparr>;
                    (result, w') = httpClient xmatters request (world s);
                    s' = \<lparr>world = w', calls = calls s @ [request]\<rparr>
                in case result of
                     Inl err \<Rightarrow> ((None, Some (Errorf ''HTTP request failed: '' err '''')), s')
                   | Inr response \<Rightarrow> (Request_response X response, s'))))"

section \<open>Client construction (api_options.go, xmatters.go)\<close>

text \<open>An option mutates the client and returns an error or \<^verbatim>\<open>nil\<close>.\<close>

type_synonym ('w, 'v) Option = "('w, 'v) XMattersAPI \<Rightarrow> error option \<times> ('w, 'v) XMattersAPI"

definition WithBaseURL :: "string \<Rightarrow> ('w, 'v) Option" where
  "WithBaseURL baseURL xmatters = (None, xmatters\<lparr>BaseURL := baseURL @ defaultBasePath\<rparr>)"

definition WithHTTPClient ::
  "('v request \<Rightarrow> 'w \<Rightarrow> (error + response) \<times> 'w) \<Rightarrow> ('w, 'v) Option" where
  "WithHTTPClient client xmatters = (None, xmatters\<lparr>httpClient := client\<rparr>)"

definition WithHeaders :: "(string \<rightharpoonup> string list) \<Rightarrow> ('w, 'v) Option" where
  "WithHeaders hs xmatters = (None, xmatters\<lparr>headers := hs\<rparr>)"

definition WithRateLimit :: "real \<Rightarrow> ('w, 'v) Option" where
  "WithRateLimit rps xmatters =
     (None, xmatters\<lparr>rateLimiter := Some \<lparr>limit = rps, burst = 1\<rparr>\<rparr>)"

text \<open>\<^verbatim>\<open>time.Duration(secs) * time.Second\<close> is a product of 64-bit integers
  (nanoseconds), which wraps.\<close>

definition WithRetryPolicy :: "int \<Rightarrow> int \<Rightarrow> int \<Rightarrow> ('w, 'v) Option" where
  "WithRetryPolicy maxRetries minRetryDelaySecs maxRetryDelaySecs xmatters =
     (None, xmatters\<lparr>retryPolicy :=
        \<lparr>MaxRetries = maxRetries,
         MinRetryDelay = word_of_int minRetryDelaySecs * 1000000000,
         MaxRetryDelay = word_of_int maxRetryDelaySecs * 1000000000\<rparr>\<rparr>)"

text \<open>The option \<^verbatim>\<open>Debug\<close> (the field of the same name keeps the name).\<close>

definition Debug_option :: "bool \<Rightarrow> ('w, 'v) Option" where
  "Debug_option debug xmatters = (None, xmatters\<lparr>Debug := Some debug\<rparr>)"

fun parseOptions ::
  "('w, 'v) XMattersAPI \<Rightarrow> ('w, 'v) Option list \<Rightarrow> error option \<times> ('w, 'v) XMattersAPI" where
  "parseOptions xmatters [] = (None, xmatters)"
| "parseOptions xmatters (option # opts) =
     (case option xmatters of
        (Some err, xmatters') \<Rightarrow> (Some err, xmatters')
      | (None, xmatters') \<Rightarrow> parseOptions xmatters' opts)"

text \<open>
  \<^verbatim>\<open>newClient\<close>. The local \<^verbatim>\<open>retryClient\<close>, whose transport is set to a logging
  one, is never used again: the client's \<open>httpClient\<close> is a second, fresh
  \<^verbatim>\<open>retryablehttp.NewClient().StandardClient()\<close>. The fields the struct literal does not
  name are zero.
\<close>

definition newClient ::
  "('w, 'v, 'g) extern \<Rightarrow> string \<Rightarrow> ('w, 'v) Option list \<Rightarrow>
   ('w, 'v) XMattersAPI option \<times> error option" where
  "newClient X hostname opts =
     (let xmatters =
            \<lparr>Username = None, Password = None, Token = None, AuthType = None,
             BaseURL = ''https://'' @ hostname @ defaultBasePath,
             UserAgent = ''xmatters-go/'' @ Version,
             headers = Map.empty,
             httpClient = retryablehttp_StandardClient X,
             rateLimiter = None,
             retryPolicy = \<lparr>MaxRetries = 0, MinRetryDelay = 0, MaxRetryDelay = 0\<rparr>,
             Debug = None\<rparr>
      in case parseOptions xmatters opts of
           (Some err, _) \<Rightarrow> (None, Some (Errorf ''options parsing failed: '' err ''''))
         | (None, xmatters') \<Rightarrow> (Some xmatters', None))"

section \<open>The pagination walk (groups.go)\<close>

text \<open>
  \<^verbatim>\<open>strings.ReplaceAll(s, old, new)\<close> for a non-empty \<open>old\<close>: the occurrences of
  \<open>old\<close> are found from left to right without overlap, and each is replaced. (Go gives an
  empty \<open>old\<close> a meaning of its own, a match before every rune; the code never passes
  one, and the model leaves the string as it is then.)
\<close>

fun strings_ReplaceAll :: "string \<Rightarrow> string \<Rightarrow> string \<Rightarrow> string" where
  "strings_ReplaceAll [] old new = []"
| "strings_ReplaceAll (c # cs) old new =
     (if old \<noteq> [] \<and> prefix old (c # cs)
      then new @ strings_ReplaceAll (drop (length old) (c # cs)) old new
      else c # strings_ReplaceAll cs old new)"

text \<open>The bytes of a possibly \<^verbatim>\<open>nil\<close> byte slice.\<close>

definition bytes_of :: "bytes option \<Rightarrow> bytes" where
  "bytes_of resp = (case resp of None \<Rightarrow> [] | Some b \<Rightarrow> b)"

text \<open>
  \<^verbatim>\<open>GetGroupPaginationSet\<close>. The recursion follows next links for as long as the
  server gives them, so the function is partial: \<open>None\<close> is a walk that never returns.
  \<^verbatim>\<open>groupPagination.Pagination.Links.Next\<close> dereferences the embedded
  \<^verbatim>\<open>*Pagination\<close> and its \<^verbatim>\<open>Links\<close>. The walks of devices, people, services and
  sites are this code with another element type.
\<close>

partial_function (option) GetGroupPaginationSet ::
  "('w, 'v, 'g) extern \<Rightarrow> ('w, 'v) XMattersAPI \<Rightarrow> string \<Rightarrow> ('w, 'v) net \<Rightarrow>
   (('g list \<times> error option) outcome \<times> ('w, 'v) net) option" where
  "GetGroupPaginationSet X xmatters uri s =
     (case Request X xmatters http_MethodGet uri ContentJSON None s of
        ((resp, Some err), s1) \<Rightarrow> Some (Return ([], Some err), s1)
      | ((resp, None), s1) \<Rightarrow>
          (case json_Unmarshal_GroupPagination X (bytes_of resp) of
             Inl err \<Rightarrow>
               Some (Return ([], Some (newUnmarshalError ''GetGroupPaginationSet'')), s1)
           | Inr groupPagination \<Rightarrow>
               (case GroupPagination_Pagination groupPagination of
                  None \<Rightarrow> Some (Panic, s1)
                | Some pagination \<Rightarrow>
                    (case Links pagination of
                       None \<Rightarrow> Some (Panic, s1)
                     | Some links \<Rightarrow>
                         (case Next links of
                            None \<Rightarrow> Some (Return (Groups groupPagination, None), s1)
                          | Some next \<Rightarrow>
                              Option.bind
                                (GetGroupPaginationSet X xmatters
                                   (strings_ReplaceAll next defaultBasePath '''') s1)
                                (\<lambda>(r, s2).
                                   case r of
                                     Panic \<Rightarrow> Some (Panic, s2)
                                   | Return (nextSet, Some err) \<Rightarrow>
                                       Some (Return ([], Some err), s2)
                                   | Return (nextSet, None) \<Rightarrow>
                                       Some (Return (Groups groupPagination @ nextSet, None),
                                             s2)))))))"

declare GetGroupPaginationSet.simps [code]

section \<open>The group roster (group_roster.go)\<close>

text \<open>\<^verbatim>\<open>GroupRoster{}\<close> and \<^verbatim>\<open>GroupMember{}\<close>, the zero values.\<close>

definition GroupRoster_zero :: GroupRoster where
  "GroupRoster_zero = \<lparr>GroupRoster_ID = None, GroupRoster_Group = None, Members = []\<rparr>"

definition GroupMember_zero :: GroupMember where
  "GroupMember_zero = \<lparr>GroupMember_ID = None, MemberType = None\<rparr>"

text \<open>The loop of \<^verbatim>\<open>GetGroupRosterPaginationSet\<close> that projects each membership to
  a member reference; \<^verbatim>\<open>member.Member.ID\<close> dereferences the entry.\<close>

fun memberList_loop ::
  "GroupMembership option list \<Rightarrow> GroupMember option list \<Rightarrow> GroupMember option list outcome" where
  "memberList_loop [] memberList = Return memberList"
| "memberList_loop (None # rest) memberList = Panic"
| "memberList_loop (Some member # rest) memberList =
     memberList_loop rest
       (memberList @ [Some \<lparr>GroupMember_ID = RecipientReference_ID (Member member),
                            MemberType = RecipientReference_RecipientType (Member member)\<rparr>])"

text \<open>
  \<^verbatim>\<open>GetGroupRosterPaginationSet\<close>. \<^verbatim>\<open>memberPagination.Memberships[0]\<close> is read
  after the recursion, when the roster is built.
\<close>

partial_function (option) GetGroupRosterPaginationSet ::
  "('w, 'v, 'g) extern \<Rightarrow> ('w, 'v) XMattersAPI \<Rightarrow> string \<Rightarrow> ('w, 'v) net \<Rightarrow>
   ((GroupRoster \<times> error option) outcome \<times> ('w, 'v) net) option" where
  "GetGroupRosterPaginationSet X xmatters uri s =
     (case Request X xmatters http_MethodGet uri ContentJSON None s of
        ((resp, Some err), s1) \<Rightarrow> Some (Return (GroupRoster_zero, Some err), s1)
      | ((resp, None), s1) \<Rightarrow>
          (case json_Unmarshal_GroupMembershipPagination X (bytes_of resp) of
             Inl err \<Rightarrow>
               Some (Return (GroupRoster_zero,
                             Some (newUnmarshalError ''GetGroupRosterPaginationSet'')), s1)
           | Inr memberPagination \<Rightarrow>
               if length (Memberships memberPagination) = 0
               then Some (Return (GroupRoster_zero, None), s1)
               else
                 (case memberList_loop (Memberships memberPagination) [] of
                    Panic \<Rightarrow> Some (Panic, s1)
                  | Return memberList \<Rightarrow>
                      (case Links memberPagination of
                         None \<Rightarrow> Some (Panic, s1)
                       | Some links \<Rightarrow>
                           Option.bind
                             (case Next links of
                                None \<Rightarrow> Some (Return (memberList, None), s1)
                              | Some next \<Rightarrow>
                                  Option.bind
                                    (GetGroupRosterPaginationSet X xmatters
                                       (strings_ReplaceAll next defaultBasePath '''') s1)
                                    (\<lambda>(r, s2).
                                       case r of
                                         Panic \<Rightarrow> Some (Panic, s2)
                                       | Return (nextSet, Some err) \<Rightarrow>
                                           Some (Return ([], Some err), s2)
                                       | Return (nextSet, None) \<Rightarrow>
                                           Some (Return (memberList @ Members nextSet, None),
                                                 s2)))
                             (\<lambda>(r, s').
                                case r of
                                  Panic \<Rightarrow> Some (Panic, s')
                                | Return (_, Some err) \<Rightarrow>
                                    Some (Return (GroupRoster_zero, Some err), s')
                                | Return (members, None) \<Rightarrow>
                                    (case Memberships memberPagination of
                                       Some first # _ \<Rightarrow>
                                         Some (Return
                                           (\<lparr>GroupRoster_ID =
                                               GroupReference_ID (GroupMembership_Group first),
                                             GroupRoster_Group =
                                               Some (GroupMembership_Group first),
                                             Members = members\<rparr>, None), s')
                                     | _ \<Rightarrow> Some (Panic, s')))))))"

declare GetGroupRosterPaginationSet.simps [code]

text \<open>\<^verbatim>\<open>buildURI(path, nil)\<close>: no query values, so the raw query is empty.\<close>

definition buildURI :: "('w, 'v, 'g) extern \<Rightarrow> string \<Rightarrow> string" where
  "buildURI X path = url_String X path ''''"

definition GetGroupRoster ::
  "('w, 'v, 'g) extern \<Rightarrow> ('w, 'v) XMattersAPI \<Rightarrow> string \<Rightarrow> ('w, 'v) net \<Rightarrow>
   ((GroupRoster \<times> error option) outcome \<times> ('w, 'v) net) option" where
  "GetGroupRoster X xmatters groupId s =
     Option.bind
       (GetGroupRosterPaginationSet X xmatters
          (buildURI X (''/groups/'' @ groupId @ ''/members'')) s)
       (\<lambda>(r, s1).
          case r of
            Panic \<Rightarrow> Some (Panic, s1)
          | Return (groupRoster, Some err) \<Rightarrow> Some (Return (GroupRoster_zero, Some err), s1)
          | Return (groupRoster, None) \<Rightarrow> Some (Return (groupRoster, None), s1))"

text \<open>\<^verbatim>\<open>ContainsMember\<close>: \<^verbatim>\<open>*m.ID == *member.ID\<close> dereferences the entry, its
  \<^verbatim>\<open>ID\<close>, and the \<^verbatim>\<open>ID\<close> of the member looked for, in this order.\<close>

fun ContainsMember :: "GroupMember \<Rightarrow> GroupMember option list \<Rightarrow> bool outcome" where
  "ContainsMember member [] = Return False"
| "ContainsMember member (None # target) = Panic"
| "ContainsMember member (Some m # target) =
     (case GroupMember_ID m of
        None \<Rightarrow> Panic
      | Some mid \<Rightarrow>
          (case GroupMember_ID member of
             None \<Rightarrow> Panic
           | Some memberid \<Rightarrow>
               if mid = memberid then Return True else ContainsMember member target))"

text \<open>\<^verbatim>\<open>DeleteGroupMembership\<close> returns only an error.\<close>

definition DeleteGroupMembership ::
  "('w, 'v, 'g) extern \<Rightarrow> ('w, 'v) XMattersAPI \<Rightarrow> string \<Rightarrow> string \<Rightarrow> ('w, 'v) net \<Rightarrow>
   error option \<times> ('w, 'v) net" where
  "DeleteGroupMembership X xmatters groupId memberId s =
     (let uri = buildURI X (''/groups/'' @ groupId @ ''/members/'' @ memberId)
      in case Request X xmatters http_MethodDelete uri ContentJSON None s of
           ((resp, Some err), s1) \<Rightarrow> (Some err, s1)
         | ((resp, None), s1) \<Rightarrow>
             (case json_Unmarshal_GroupMember X (bytes_of resp) of
                Inl err \<Rightarrow> (Some (Errorf (errUnmarshalError @ '': '') err ''''), s1)
              | Inr result \<Rightarrow> (None, s1)))"

text \<open>\<^verbatim>\<open>PushGroupMembership\<close>: the body is the \<^verbatim>\<open>*GroupMember\<close> itself, a value that
  is neither a reader nor a byte slice.\<close>

definition PushGroupMembership ::
  "('w, GroupMember option, 'g) extern \<Rightarrow> ('w, GroupMember option) XMattersAPI \<Rightarrow> string \<Rightarrow>
   GroupMember option \<Rightarrow> ('w, GroupMember option) net \<Rightarrow>
   (GroupMember \<times> error option) \<times> ('w, GroupMember option) net" where
  "PushGroupMembership X xmatters groupId params s =
     (let uri = buildURI X (''/groups/'' @ groupId @ ''/members'')
      in case Request X xmatters http_MethodPost uri ContentJSON (Some (OtherValue params)) s of
           ((resp, Some err), s1) \<Rightarrow> ((GroupMember_zero, Some err), s1)
         | ((resp, None), s1) \<Rightarrow>
             (case json_Unmarshal_GroupMember X (bytes_of resp) of
                Inl err \<Rightarrow>
                  ((GroupMember_zero, Some (newUnmarshalError ''PushGroupMembership'')), s1)
              | Inr result \<Rightarrow> ((result, None), s1)))"

text \<open>The first loop of \<^verbatim>\<open>PushGroupRoster\<close>, over the current members.\<close>

fun PushGroupRoster_remove ::
  "('w, 'v, 'g) extern \<Rightarrow> ('w, 'v) XMattersAPI \<Rightarrow> string \<Rightarrow> GroupMember option list \<Rightarrow>
   GroupMember option list \<Rightarrow> ('w, 'v) net \<Rightarrow> error option outcome \<times> ('w, 'v) net" where
  "PushGroupRoster_remove X xmatters groupId params [] s = (Return None, s)"
| "PushGroupRoster_remove X xmatters groupId params (None # rest) s = (Panic, s)"
| "PushGroupRoster_remove X xmatters groupId params (Some member # rest) s =
     (case ContainsMember member params of
        Panic \<Rightarrow> (Panic, s)
      | Return True \<Rightarrow> PushGroupRoster_remove X xmatters groupId params rest s
      | Return False \<Rightarrow>
          (case GroupMember_ID member of
             None \<Rightarrow> (Panic, s)
           | Some memberId \<Rightarrow>
               (case DeleteGroupMembership X xmatters groupId memberId s of
                  (Some err, s1) \<Rightarrow> (Return (Some err), s1)
                | (None, s1) \<Rightarrow> PushGroupRoster_remove X xmatters groupId params rest s1)))"

text \<open>The second loop of \<^verbatim>\<open>PushGroupRoster\<close>, over the desired members.\<close>

fun PushGroupRoster_add ::
  "('w, GroupMember option, 'g) extern \<Rightarrow> ('w, GroupMember option) XMattersAPI \<Rightarrow> string \<Rightarrow>
   GroupMember option list \<Rightarrow> GroupMember option list \<Rightarrow> ('w, GroupMember option) net \<Rightarrow>
   error option outcome \<times> ('w, GroupMember option) net" where
  "PushGroupRoster_add X xmatters groupId current [] s = (Return None, s)"
| "PushGroupRoster_add X xmatters groupId current (None # rest) s = (Panic, s)"
| "PushGroupRoster_add X xmatters groupId current (Some member # rest) s =
     (case ContainsMember member current of
        Panic \<Rightarrow> (Panic, s)
      | Return True \<Rightarrow> PushGroupRoster_add X xmatters groupId current rest s
      | Return False \<Rightarrow>
          (case PushGroupMembership X xmatters groupId (Some member) s of
             ((_, Some err), s1) \<Rightarrow> (Return (Some err), s1)
           | ((_, None), s1) \<Rightarrow> PushGroupRoster_add X xmatters groupId current rest s1))"

definition PushGroupRoster ::
  "('w, GroupMember option, 'g) extern \<Rightarrow> ('w, GroupMember option) XMattersAPI \<Rightarrow> string \<Rightarrow>
   GroupMember option list \<Rightarrow> ('w, GroupMember option) net \<Rightarrow>
   ((GroupRoster \<times> error option) outcome \<times> ('w, GroupMember option) net) option" where
  "PushGroupRoster X xmatters groupId params s =
     Option.bind (GetGroupRoster X xmatters groupId s)
       (\<lambda>(r, s1).
          case r of
            Panic \<Rightarrow> Some (Panic, s1)
          | Return (currentRoster, Some err) \<Rightarrow> Some (Return (GroupRoster_zero, Some err), s1)
          | Return (currentRoster, None) \<Rightarrow>
              (case PushGroupRoster_remove X xmatters groupId params (Members currentRoster) s1 of
                 (Panic, s2) \<Rightarrow> Some (Panic, s2)
               | (Return (Some err), s2) \<Rightarrow> Some (Return (GroupRoster_zero, Some err), s2)
               | (Return None, s2) \<Rightarrow>
                   (case PushGroupRoster_add X xmatters groupId (Members currentRoster) params s2 of
                      (Panic, s3) \<Rightarrow> Some (Panic, s3)
                    | (Return (Some err), s3) \<Rightarrow> Some (Return (GroupRoster_zero, Some err), s3)
                    | (Return None, s3) \<Rightarrow>
                        Option.bind (GetGroupRoster X xmatters groupId s3)
                          (\<lambda>(r', s4).
                             case r' of
                               Panic \<Rightarrow> Some (Panic, s4)
                             | Return (newRoster, Some err) \<Rightarrow>
                                 Some (Return (GroupRoster_zero, Some err), s4)
                             | Return (newRoster, None) \<Rightarrow>
                                 Some (Return (newRoster, None), s4)))))"

section \<open>A fixture server\<close>

text \<open>
  A small server to run the operations against. Its world is the roster of group
  \<open>G\<close>, one character per member identifier. The payloads are short names instead of
  JSON text, and the decoders map each name to what the JSON it stands for decodes to.
  A member is added by a POST and removed by a DELETE, but for the member \<open>X\<close>, whose
  removal the server answers with an error status.
\<close>

definition fixture_base :: string where
  "fixture_base = ''https://acme.example/api/xm/1''"

definition fixture_ok :: "bytes \<Rightarrow> string \<Rightarrow> (error + response) \<times> string" where
  "fixture_ok b w = (Inr \<lparr>StatusCode = 200, RespBody = Inr b\<rparr>, w)"

definition fixture_Do ::
  "GroupMember option request \<Rightarrow> string \<Rightarrow> (error + response) \<times> string" where
  "fixture_Do req w =
     (let u = drop (length fixture_base) (URL req) in
      if Method req = ''GET'' then
        (if u = ''/groups'' then fixture_ok ''groups 1 of 2'' w
         else if u = ''/groups?offset=2'' then fixture_ok ''groups 2 of 2'' w
         else if u = ''/groups/then/down'' then fixture_ok ''groups then down'' w
         else if u = ''/groups/then/garbled'' then fixture_ok ''groups then garbled'' w
         else if u = ''/groups/data/only'' then fixture_ok ''groups data only'' w
         else if u = ''/groups/no/links'' then fixture_ok ''groups no links'' w
         else if u = ''/groups/twice'' then fixture_ok ''groups twice'' w
         else if u = ''/garbled'' then fixture_ok ''<html>'' w
         else if u = ''/down'' then (Inl (ExternalError ''connection refused''), w)
         else if u = ''/groups/G/members'' then fixture_ok w w
         else if u = ''/groups/R/members'' then fixture_ok ''roster 1 of 2'' w
         else if u = ''/groups/R/members?offset=1'' then fixture_ok ''roster 2 of 2'' w
         else if u = ''/groups/E/members'' then fixture_ok ''roster empty with next'' w
         else if u = ''/groups/N/members'' then fixture_ok ''roster no links'' w
         else if u = ''/groups/D/members'' then fixture_ok ''roster then down'' w
         else if u = ''/groups/H/members'' then fixture_ok ''roster before hole'' w
         else if u = ''/groups/H/members?offset=1'' then fixture_ok ''roster hole'' w
         else if u = ''/groups/H/members?offset=2'' then fixture_ok ''roster after hole'' w
         else if u = ''/groups/Z/members'' then fixture_ok ''roster empty no links'' w
         else if u = ''/status/201'' then (Inr \<lparr>StatusCode = 201, RespBody = Inr ''created''\<rparr>, w)
         else if u = ''/status/401'' then (Inr \<lparr>StatusCode = 401, RespBody = Inr ''''\<rparr>, w)
         else (Inr \<lparr>StatusCode = 404, RespBody = Inr ''not found''\<rparr>, w))
      else if Method req = ''DELETE'' \<and> prefix ''/groups/G/members/'' u then
        (let memberId = drop 18 u in
         if memberId = ''X''
         then (Inr \<lparr>StatusCode = 404, RespBody = Inr ''not found''\<rparr>, w) else
         if memberId \<noteq> [] \<and> set memberId \<subseteq> set w
         then fixture_ok memberId (filter (\<lambda>c. c \<notin> set memberId) w)
         else (Inr \<lparr>StatusCode = 204, RespBody = Inr ''''\<rparr>, w))
      else if Method req = ''POST'' \<and> u = ''/groups/G/members'' then
        (case Body req of
           Some (bytes_NewReader b) \<Rightarrow> fixture_ok b (w @ b)
         | _ \<Rightarrow> (Inr \<lparr>StatusCode = 400, RespBody = Inr ''not found''\<rparr>, w))
      else (Inr \<lparr>StatusCode = 404, RespBody = Inr ''not found''\<rparr>, w))"

definition fixture_links :: "string option \<Rightarrow> PaginationLinks option" where
  "fixture_links n = Some \<lparr>Next = n, Previous = None, Self = None\<rparr>"

definition fixture_groups ::
  "string option \<Rightarrow> string list \<Rightarrow> error + string GroupPagination" where
  "fixture_groups n gs =
     Inr \<lparr>GroupPagination_Pagination =
            Some \<lparr>Count = Some (int (length gs)), Total = Some 3, Links = fixture_links n\<rparr>,
          Groups = gs\<rparr>"

definition fixture_GroupPagination :: "bytes \<Rightarrow> error + string GroupPagination" where
  "fixture_GroupPagination b =
     (if b = ''groups 1 of 2''
      then fixture_groups (Some ''/api/xm/1/groups?offset=2'') [''g1'', ''g2'']
      else if b = ''groups 2 of 2'' then fixture_groups None [''g3'']
      else if b = ''groups then down'' then fixture_groups (Some ''/api/xm/1/down'') [''g1'']
      else if b = ''groups then garbled'' then fixture_groups (Some ''/api/xm/1/garbled'') [''g1'']
      else if b = ''groups twice''
      then fixture_groups (Some ''/api/xm/1/status/201?from=/api/xm/1/groups'') [''g1'']
      else if b = ''groups data only''
      then Inr \<lparr>GroupPagination_Pagination = None, Groups = [''g1'']\<rparr>
      else if b = ''groups no links''
      then Inr \<lparr>GroupPagination_Pagination = Some \<lparr>Count = Some 1, Total = Some 1, Links = None\<rparr>,
                Groups = [''g1'']\<rparr>
      else Inl (ExternalError ''invalid character''))"

definition fixture_membership :: "string \<Rightarrow> char \<Rightarrow> GroupMembership option" where
  "fixture_membership g c =
     Some \<lparr>GroupMembership_Group =
             \<lparr>GroupReference_ID = Some g, GroupReference_TargetName = None,
              GroupReference_RecipientType = Some ''GROUP'', GroupType = None\<rparr>,
           Member =
             \<lparr>RecipientReference_ID = Some [c], RecipientReference_TargetName = None,
              RecipientReference_RecipientType = Some ''PERSON''\<rparr>\<rparr>"

definition fixture_roster ::
  "PaginationLinks option \<Rightarrow> string \<Rightarrow> string \<Rightarrow> error + GroupMembershipPagination" where
  "fixture_roster l g ids =
     Inr \<lparr>Count = Some (int (length ids)), Total = None, Links = l,
          Memberships = map (fixture_membership g) ids\<rparr>"

definition fixture_GroupMembershipPagination :: "bytes \<Rightarrow> error + GroupMembershipPagination" where
  "fixture_GroupMembershipPagination b =
     (if b = ''roster 1 of 2''
      then fixture_roster (fixture_links (Some ''/api/xm/1/groups/R/members?offset=1'')) ''R'' ''a''
      else if b = ''roster 2 of 2'' then fixture_roster (fixture_links None) ''R2'' ''bc''
      else if b = ''roster empty with next''
      then fixture_roster (fixture_links (Some ''/api/xm/1/groups/R/members'')) ''E'' ''''
      else if b = ''roster no links'' then fixture_roster None ''N'' ''a''
      else if b = ''roster before hole''
      then fixture_roster (fixture_links (Some ''/api/xm/1/groups/H/members?offset=1'')) ''H'' ''a''
      else if b = ''roster hole''
      then fixture_roster (fixture_links (Some ''/api/xm/1/groups/H/members?offset=2'')) ''H'' ''''
      else if b = ''roster after hole'' then fixture_roster (fixture_links None) ''H'' ''b''
      else if b = ''roster empty no links'' then fixture_roster None ''Z'' ''''
      else if b = ''roster then down''
      then fixture_roster (fixture_links (Some ''/api/xm/1/down'')) ''D'' ''a''
      else if b = ''<html>'' then Inl (ExternalError ''invalid character'')
      else fixture_roster (fixture_links None) ''G'' b)"

definition fixture_group :: GroupReference where
  "fixture_group =
     \<lparr>GroupReference_ID = Some ''G'', GroupReference_TargetName = None,
      GroupReference_RecipientType = Some ''GROUP'', GroupType = None\<rparr>"

definition fixture_member :: "char \<Rightarrow> GroupMember option" where
  "fixture_member c = Some \<lparr>GroupMember_ID = Some [c], MemberType = Some ''PERSON''\<rparr>"

definition fixture_extern :: "(string, GroupMember option, string) extern" where
  "fixture_extern =
     \<lparr>json_Marshal =
        (\<lambda>b. case b of
                OtherValue (Some m) \<Rightarrow>
                  (case GroupMember_ID m of Some i \<Rightarrow> Inr i | None \<Rightarrow> Inr ''null'')
              | OtherValue None \<Rightarrow> Inl (ExternalError ''json: unsupported value'')
              | _ \<Rightarrow> Inr ''marshalled''),
      NewRequest_error =
        (\<lambda>m u. if m = ''BAD METHOD'' then Some (ExternalError ''net/http: invalid method'')
                else None),
      json_Unmarshal_XMattersError =
        (\<lambda>b. if b = ''not found''
              then Inr \<lparr>Code = 404, Reason = ''Not Found'', Message = ''no such resource'',
                        Subcode = ''''\<rparr>
              else Inl (ExternalError ''invalid character'')),
      json_Unmarshal_GroupPagination = fixture_GroupPagination,
      json_Unmarshal_GroupMembershipPagination = fixture_GroupMembershipPagination,
      json_Unmarshal_GroupMember = (\<lambda>b. Inr \<lparr>GroupMember_ID = Some b, MemberType = None\<rparr>),
      url_String = (\<lambda>p q. if q = [] then p else p @ ''?'' @ q),
      retryablehttp_StandardClient = fixture_Do\<rparr>"

definition fixture_client :: "(string, GroupMember option) XMattersAPI" where
  "fixture_client =
     \<lparr>Username = None, Password = None, Token = None, AuthType = None,
      BaseURL = fixture_base, UserAgent = ''xmatters-go/1'',
      headers = Map.empty, httpClient = fixture_Do, rateLimiter = None,
      retryPolicy = \<lparr>MaxRetries = 0, MinRetryDelay = 0, MaxRetryDelay = 0\<rparr>,
      Debug = None\<rparr>"

text \<open>The start: the roster of \<open>G\<close> is \<open>A\<close>, \<open>B\<close>; nothing has been requested yet.\<close>

definition fixture_net :: "(string, GroupMember option) net" where
  "fixture_net = \<lparr>world = ''AB'', calls = []\<rparr>"

section \<open>The request sent\<close>

text \<open>The request \<^verbatim>\<open>Request\<close> sends for a method, a URI, a content type and a request
  body, once the body is chosen and the request built.\<close>

definition request_for ::
  "('w, 'v) XMattersAPI \<Rightarrow> string \<Rightarrow> string \<Rightarrow> string \<Rightarrow> 'v reader option \<Rightarrow> 'v request" where
  "request_for xmatters httpMethod uri contentType reqBody =
     \<lparr>Method = (if httpMethod = [] then ''GET'' else httpMethod),
      URL = BaseURL xmatters @ uri,
      Body = reqBody,
      Header = [''Content-Type'' \<mapsto> [contentType], ''User-Agent'' \<mapsto> [UserAgent xmatters]]
                 ++ headers xmatters\<rparr>"

section \<open>Result sets as the server presents them\<close>

text \<open>
  \<open>group_pages X xmatters uri s pages s'\<close>: requested from state \<open>s\<close> at \<open>uri\<close>, the server
  presents the result set \<open>pages\<close>, a sequence of page envelopes linked by next links.
  Each page is fetched with success and decodes to the next envelope of the sequence,
  every envelope but the last has a next link, under which (the base path removed, as
  the walk removes it) the rest of the sequence is presented, and the last envelope has
  none. \<open>s'\<close> is the state after the last page has been fetched.
\<close>

inductive group_pages ::
  "('w, 'v, 'g) extern \<Rightarrow> ('w, 'v) XMattersAPI \<Rightarrow> string \<Rightarrow> ('w, 'v) net \<Rightarrow>
   'g GroupPagination list \<Rightarrow> ('w, 'v) net \<Rightarrow> bool"
  for X :: "('w, 'v, 'g) extern" and xmatters :: "('w, 'v) XMattersAPI" where
  last_page:
    "Request X xmatters http_MethodGet uri ContentJSON None s = ((resp, None), s1) \<Longrightarrow>
     json_Unmarshal_GroupPagination X (bytes_of resp) = Inr page \<Longrightarrow>
     GroupPagination_Pagination page = Some pagination \<Longrightarrow>
     Links pagination = Some links \<Longrightarrow>
     Next links = None \<Longrightarrow>
     group_pages X xmatters uri s [page] s1"
| next_page:
    "Request X xmatters http_MethodGet uri ContentJSON None s = ((resp, None), s1) \<Longrightarrow>
     json_Unmarshal_GroupPagination X (bytes_of resp) = Inr page \<Longrightarrow>
     GroupPagination_Pagination page = Some pagination \<Longrightarrow>
     Links pagination = Some links \<Longrightarrow>
     Next links = Some next \<Longrightarrow>
     group_pages X xmatters (strings_ReplaceAll next defaultBasePath '''') s1 pages s' \<Longrightarrow>
     group_pages X xmatters uri s (page # pages) s'"

text \<open>
  \<open>group_pages_fail X xmatters uri s err s'\<close>: requested from state \<open>s\<close> at \<open>uri\<close>, the
  server presents some pages linked by next links and then a page that fails, in state
  \<open>s'\<close>: either its fetch fails, \<open>Request\<close> returning the error \<open>err\<close> (a transport error or
  an error status), or its envelope does not decode, for which the walk's error \<open>err\<close> is
  its generic decoding error.
\<close>

inductive group_pages_fail ::
  "('w, 'v, 'g) extern \<Rightarrow> ('w, 'v) XMattersAPI \<Rightarrow> string \<Rightarrow> ('w, 'v) net \<Rightarrow>
   error \<Rightarrow> ('w, 'v) net \<Rightarrow> bool"
  for X :: "('w, 'v, 'g) extern" and xmatters :: "('w, 'v) XMattersAPI" where
  fetch_fails:
    "Request X xmatters http_MethodGet uri ContentJSON None s = ((resp, Some err), s1) \<Longrightarrow>
     group_pages_fail X xmatters uri s err s1"
| decode_fails:
    "Request X xmatters http_MethodGet uri ContentJSON None s = ((resp, None), s1) \<Longrightarrow>
     json_Unmarshal_GroupPagination X (bytes_of resp) = Inl e \<Longrightarrow>
     group_pages_fail X xmatters uri s (newUnmarshalError ''GetGroupPaginationSet'') s1"
| later_fails:
    "Request X xmatters http_MethodGet uri ContentJSON None s = ((resp, None), s1) \<Longrightarrow>
     json_Unmarshal_GroupPagination X (bytes_of resp) = Inr page \<Longrightarrow>
     GroupPagination_Pagination page = Some pagination \<Longrightarrow>
     Links pagination = Some links \<Longrightarrow>
     Next links = Some next \<Longrightarrow>
     group_pages_fail X xmatters (strings_ReplaceAll next defaultBasePath '''') s1 err s' \<Longrightarrow>
     group_pages_fail X xmatters uri s err s'"

text \<open>
  The same for the pages of a roster. A page before the failing one has at least one
  membership and no \<^verbatim>\<open>null\<close> entry (the walk returns at an empty page and panics at a
  \<^verbatim>\<open>null\<close> one), and a next link.
\<close>

inductive roster_pages_fail ::
  "('w, 'v, 'g) extern \<Rightarrow> ('w, 'v) XMattersAPI \<Rightarrow> string \<Rightarrow> ('w, 'v) net \<Rightarrow>
   error \<Rightarrow> ('w, 'v) net \<Rightarrow> bool"
  for X :: "('w, 'v, 'g) extern" and xmatters :: "('w, 'v) XMattersAPI" where
  roster_fetch_fails:
    "Request X xmatters http_MethodGet uri ContentJSON None s = ((resp, Some err), s1) \<Longrightarrow>
     roster_pages_fail X xmatters uri s err s1"
| roster_decode_fails:
    "Request X xmatters http_MethodGet uri ContentJSON None s = ((resp, None), s1) \<Longrightarrow>
     json_Unmarshal_GroupMembershipPagination X (bytes_of resp) = Inl e \<Longrightarrow>
     roster_pages_fail X xmatters uri s (newUnmarshalError ''GetGroupRosterPaginationSet'') s1"
| roster_later_fails:
    "Request X xmatters http_MethodGet uri ContentJSON None s = ((resp, None), s1) \<Longrightarrow>
     json_Unmarshal_GroupMembershipPagination X (bytes_of resp) = Inr page \<Longrightarrow>
     Memberships page \<noteq> [] \<Longrightarrow>
     memberList_loop (Memberships page) [] = Return memberList \<Longrightarrow>
     Links page = Some links \<Longrightarrow>
     Next links = Some next \<Longrightarrow>
     roster_pages_fail X xmatters (strings_ReplaceAll next defaultBasePath '''') s1 err s' \<Longrightarrow>
     roster_pages_fail X xmatters uri s err s'"

text \<open>The member references of the memberships of a page, as the roster walk makes
  them: identifier and recipient type of each membership's member.\<close>

definition member_refs :: "GroupMembership option list \<Rightarrow> GroupMember option list" where
  "member_refs ms =
     map (map_option (\<lambda>member.
            \<lparr>GroupMember_ID = RecipientReference_ID (Member member),
             MemberType = RecipientReference_RecipientType (Member member)\<rparr>)) ms"

text \<open>
  \<open>roster_pages X xmatters uri s pages\<close>: requested from state \<open>s\<close> at \<open>uri\<close>, the server
  presents the roster as the result set \<open>pages\<close>: each page is fetched with success and
  decodes to the next envelope of the sequence, no envelope has a \<^verbatim>\<open>null\<close> membership,
  every envelope has links, and every envelope but the last has a next link, under which
  the rest of the sequence is presented. A page may have no memberships.
\<close>

inductive roster_pages ::
  "('w, 'v, 'g) extern \<Rightarrow> ('w, 'v) XMattersAPI \<Rightarrow> string \<Rightarrow> ('w, 'v) net \<Rightarrow>
   GroupMembershipPagination list \<Rightarrow> bool"
  for X :: "('w, 'v, 'g) extern" and xmatters :: "('w, 'v) XMattersAPI" where
  roster_last_page:
    "Request X xmatters http_MethodGet uri ContentJSON None s = ((resp, None), t) \<Longrightarrow>
     json_Unmarshal_GroupMembershipPagination X (bytes_of resp) = Inr page \<Longrightarrow>
     list_all (\<lambda>m. m \<noteq> None) (Memberships page) \<Longrightarrow>
     Links page = Some links \<Longrightarrow>
     Next links = None \<Longrightarrow>
     roster_pages X xmatters uri s [page]"
| roster_next_page:
    "Request X xmatters http_MethodGet uri ContentJSON None s = ((resp, None), t) \<Longrightarrow>
     json_Unmarshal_GroupMembershipPagination X (bytes_of resp) = Inr page \<Longrightarrow>
     list_all (\<lambda>m. m \<noteq> None) (Memberships page) \<Longrightarrow>
     Links page = Some links \<Longrightarrow>
     Next links = Some next \<Longrightarrow>
     roster_pages X xmatters (strings_ReplaceAll next defaultBasePath '''') t pages \<Longrightarrow>
     roster_pages X xmatters uri s (page # pages)"

code_pred group_pages .

code_pred group_pages_fail .

code_pred roster_pages_fail .

code_pred roster_pages .

section \<open>Reconciliation: the calls to make\<close>

text \<open>The identifier of a member entry, if the entry and its identifier are there.\<close>

definition member_id :: "GroupMember option \<Rightarrow> string option" where
  "member_id x = Option.bind x GroupMember_ID"

text \<open>
  The entries of the list \<open>xs\<close> whose identifier is that of no entry of \<open>others\<close>, in
  their order in \<open>xs\<close>. Nothing but identifiers is compared. It is a list, as the
  rosters are: an identifier that two entries of \<open>xs\<close> have is kept twice. Its
  identifiers are the set difference of the identifiers of \<open>xs\<close> and \<open>others\<close>
  (lemma \<open>absent_from_ids\<close> below).
\<close>

definition absent_from ::
  "GroupMember option list \<Rightarrow> GroupMember option list \<Rightarrow> GroupMember option list" where
  "absent_from others xs = filter (\<lambda>x. member_id x \<notin> set (map member_id others)) xs"

text \<open>The delete call for the member with identifier \<open>memberId\<close>, and the create call
  whose body is the JSON text \<open>jsonBody\<close>.\<close>

definition delete_call ::
  "('w, 'v, 'g) extern \<Rightarrow> ('w, 'v) XMattersAPI \<Rightarrow> string \<Rightarrow> string \<Rightarrow> 'v request" where
  "delete_call X xmatters groupId memberId =
     request_for xmatters ''DELETE''
       (buildURI X (''/groups/'' @ groupId @ ''/members/'' @ memberId)) ContentJSON None"

definition create_call ::
  "('w, 'v, 'g) extern \<Rightarrow> ('w, 'v) XMattersAPI \<Rightarrow> string \<Rightarrow> bytes \<Rightarrow> 'v request" where
  "create_call X xmatters groupId jsonBody =
     request_for xmatters ''POST''
       (buildURI X (''/groups/'' @ groupId @ ''/members'')) ContentJSON
       (Some (bytes_NewReader jsonBody))"

section \<open>The shape of a call to \<open>Request\<close>\<close>

lemmas Status_defs = StatusOK_def StatusCreated_def StatusNoContent_def StatusUnauthorized_def

lemmas Method_defs = http_MethodGet_def http_MethodPost_def http_MethodDelete_def

lemma Request_not_sent:
  "Request_reqBody X body = Inl err \<Longrightarrow>
   Request X xmatters httpMethod uri contentType body s = ((None, Some err), s)"
  by (simp add: Request_def)

lemma Request_not_built:
  "Request_reqBody X body = Inr reqBody \<Longrightarrow>
   NewRequest_error X httpMethod (BaseURL xmatters @ uri) = Some err \<Longrightarrow>
   Request X xmatters httpMethod uri contentType body s =
     ((None, Some (Errorf ''HTTP request creation failed: '' err '''')), s)"
  by (simp add: Request_def http_NewRequest_def)

lemma Request_sent:
  "Request_reqBody X body = Inr reqBody \<Longrightarrow>
   NewRequest_error X httpMethod (BaseURL xmatters @ uri) = None \<Longrightarrow>
   httpClient xmatters (request_for xmatters httpMethod uri contentType reqBody) (world s)
     = (result, w') \<Longrightarrow>
   Request X xmatters httpMethod uri contentType body s =
     ((case result of
         Inl err \<Rightarrow> (None, Some (Errorf ''HTTP request failed: '' err ''''))
       | Inr response \<Rightarrow> Request_response X response),
      \<lparr>world = w', calls = calls s @ [request_for xmatters httpMethod uri contentType reqBody]\<rparr>)"
  by (simp add: Request_def http_NewRequest_def request_for_def copyHeader_def Let_def
           split: sum.splits)

text \<open>A call either returns an error without touching the network, or sends exactly one
  request.\<close>

lemma Request_cases:
  obtains (unsent) err where
      "Request X xmatters httpMethod uri contentType body s = ((None, Some err), s)"
  | (sent) reqBody result w' where
      "Request_reqBody X body = Inr reqBody"
      "NewRequest_error X httpMethod (BaseURL xmatters @ uri) = None"
      "httpClient xmatters (request_for xmatters httpMethod uri contentType reqBody) (world s)
         = (result, w')"
      "Request X xmatters httpMethod uri contentType body s =
        ((case result of
            Inl err \<Rightarrow> (None, Some (Errorf ''HTTP request failed: '' err ''''))
          | Inr response \<Rightarrow> Request_response X response),
         \<lparr>world = w',
           calls = calls s @ [request_for xmatters httpMethod uri contentType reqBody]\<rparr>)"
proof (cases "Request_reqBody X body")
  case (Inl err)
  then show ?thesis using unsent Request_not_sent by blast
next
  case (Inr reqBody)
  show ?thesis
  proof (cases "NewRequest_error X httpMethod (BaseURL xmatters @ uri)")
    case (Some err)
    then show ?thesis using unsent Request_not_built[OF Inr] by blast
  next
    case None
    obtain result w' where
      d: "httpClient xmatters (request_for xmatters httpMethod uri contentType reqBody) (world s)
            = (result, w')"
      by (cases "httpClient xmatters (request_for xmatters httpMethod uri contentType reqBody)
                   (world s)")
    show ?thesis using sent[OF Inr None d Request_sent[OF Inr None d]] .
  qed
qed

section \<open>Evaluating the fixture\<close>

lemma fixture_extern_simps:
  "json_Marshal fixture_extern (OtherValue (Some m)) =
     (case GroupMember_ID m of Some i \<Rightarrow> Inr i | None \<Rightarrow> Inr ''null'')"
  "json_Marshal fixture_extern (OtherValue None) = Inl (ExternalError ''json: unsupported value'')"
  "NewRequest_error fixture_extern meth u =
     (if meth = ''BAD METHOD'' then Some (ExternalError ''net/http: invalid method'') else None)"
  "json_Unmarshal_XMattersError fixture_extern b =
     (if b = ''not found''
      then Inr \<lparr>Code = 404, Reason = ''Not Found'', Message = ''no such resource'', Subcode = ''''\<rparr>
      else Inl (ExternalError ''invalid character''))"
  "json_Unmarshal_GroupPagination fixture_extern = fixture_GroupPagination"
  "json_Unmarshal_GroupMembershipPagination fixture_extern = fixture_GroupMembershipPagination"
  "json_Unmarshal_GroupMember fixture_extern b = Inr \<lparr>GroupMember_ID = Some b, MemberType = None\<rparr>"
  "url_String fixture_extern p q = (if q = [] then p else p @ ''?'' @ q)"
  "retryablehttp_StandardClient fixture_extern = fixture_Do"
  by (simp_all add: fixture_extern_def)

lemma fixture_client_simps:
  "BaseURL fixture_client = fixture_base"
  "UserAgent fixture_client = ''xmatters-go/1''"
  "headers fixture_client = Map.empty"
  "httpClient fixture_client = fixture_Do"
  "rateLimiter fixture_client = None"
  by (simp_all add: fixture_client_def)

lemma fixture_net_simps:
  "world fixture_net = ''AB''"
  "calls fixture_net = []"
  by (simp_all add: fixture_net_def)

lemmas fixture_simps =
  fixture_extern_simps fixture_client_simps fixture_net_simps

lemmas fixture_page_defs =
  fixture_GroupPagination_def fixture_GroupMembershipPagination_def
  fixture_groups_def fixture_roster_def fixture_links_def fixture_membership_def

text \<open>What the fixture answers to a request made by \<open>Request\<close>.\<close>

lemma fixture_Do_request_for:
  "fixture_Do (request_for fixture_client httpMethod uri contentType reqBody) w =
     fixture_Do \<lparr>Method = (if httpMethod = [] then ''GET'' else httpMethod),
                 URL = fixture_base @ uri, Body = reqBody, Header = Map.empty\<rparr> w"
  by (simp add: fixture_Do_def request_for_def fixture_client_simps)

lemma fixture_Request:
  assumes b: "Request_reqBody fixture_extern body = Inr reqBody"
      and m: "httpMethod \<noteq> ''BAD METHOD''"
  shows "Request fixture_extern fixture_client httpMethod uri contentType body s =
     (case fixture_Do (request_for fixture_client httpMethod uri contentType reqBody) (world s) of
        (result, w') \<Rightarrow>
          ((case result of
              Inl err \<Rightarrow> (None, Some (Errorf ''HTTP request failed: '' err ''''))
            | Inr response \<Rightarrow> Request_response fixture_extern response),
           \<lparr>world = w',
             calls = calls s @ [request_for fixture_client httpMethod uri contentType reqBody]\<rparr>))"
proof -
  obtain result w' where
    d: "fixture_Do (request_for fixture_client httpMethod uri contentType reqBody) (world s)
          = (result, w')"
    by (cases "fixture_Do (request_for fixture_client httpMethod uri contentType reqBody) (world s)")
  have n: "NewRequest_error fixture_extern httpMethod (BaseURL fixture_client @ uri) = None"
    using m by (simp add: fixture_extern_simps)
  from d have d': "httpClient fixture_client
                     (request_for fixture_client httpMethod uri contentType reqBody) (world s)
                     = (result, w')"
    by (simp add: fixture_client_simps)
  show ?thesis
    unfolding Request_sent[OF b n d'] d by simp
qed

lemma fixture_Request_None:
  "httpMethod \<noteq> ''BAD METHOD'' \<Longrightarrow>
   Request fixture_extern fixture_client httpMethod uri contentType None s =
     (case fixture_Do (request_for fixture_client httpMethod uri contentType None) (world s) of
        (result, w') \<Rightarrow>
          ((case result of
              Inl err \<Rightarrow> (None, Some (Errorf ''HTTP request failed: '' err ''''))
            | Inr response \<Rightarrow> Request_response fixture_extern response),
           \<lparr>world = w',
             calls = calls s @ [request_for fixture_client httpMethod uri contentType None]\<rparr>))"
  by (rule fixture_Request) (simp_all add: Request_reqBody_def)

lemma fixture_Do_GET:
  "fixture_Do \<lparr>Method = ''GET'', URL = fixture_base @ u, Body = b, Header = h\<rparr> w =
     (if u = ''/groups'' then fixture_ok ''groups 1 of 2'' w
      else if u = ''/groups?offset=2'' then fixture_ok ''groups 2 of 2'' w
      else if u = ''/groups/then/down'' then fixture_ok ''groups then down'' w
      else if u = ''/groups/then/garbled'' then fixture_ok ''groups then garbled'' w
      else if u = ''/groups/data/only'' then fixture_ok ''groups data only'' w
      else if u = ''/groups/no/links'' then fixture_ok ''groups no links'' w
      else if u = ''/groups/twice'' then fixture_ok ''groups twice'' w
      else if u = ''/garbled'' then fixture_ok ''<html>'' w
      else if u = ''/down'' then (Inl (ExternalError ''connection refused''), w)
      else if u = ''/groups/G/members'' then fixture_ok w w
      else if u = ''/groups/R/members'' then fixture_ok ''roster 1 of 2'' w
      else if u = ''/groups/R/members?offset=1'' then fixture_ok ''roster 2 of 2'' w
      else if u = ''/groups/E/members'' then fixture_ok ''roster empty with next'' w
      else if u = ''/groups/N/members'' then fixture_ok ''roster no links'' w
      else if u = ''/groups/D/members'' then fixture_ok ''roster then down'' w
      else if u = ''/groups/H/members'' then fixture_ok ''roster before hole'' w
      else if u = ''/groups/H/members?offset=1'' then fixture_ok ''roster hole'' w
      else if u = ''/groups/H/members?offset=2'' then fixture_ok ''roster after hole'' w
      else if u = ''/groups/Z/members'' then fixture_ok ''roster empty no links'' w
      else if u = ''/status/201'' then (Inr \<lparr>StatusCode = 201, RespBody = Inr ''created''\<rparr>, w)
      else if u = ''/status/401'' then (Inr \<lparr>StatusCode = 401, RespBody = Inr ''''\<rparr>, w)
      else (Inr \<lparr>StatusCode = 404, RespBody = Inr ''not found''\<rparr>, w))"
  by (simp add: fixture_Do_def Let_def)

lemma fixture_Do_DELETE:
  "fixture_Do \<lparr>Method = ''DELETE'', URL = fixture_base @ ''/groups/G/members/'' @ i,
               Body = b, Header = h\<rparr> w =
     (if i = ''X'' then (Inr \<lparr>StatusCode = 404, RespBody = Inr ''not found''\<rparr>, w) else
     (if i \<noteq> [] \<and> set i \<subseteq> set w
      then fixture_ok i (filter (\<lambda>c. c \<notin> set i) w)
      else (Inr \<lparr>StatusCode = 204, RespBody = Inr ''''\<rparr>, w)))"
  by (simp add: fixture_Do_def Let_def)

lemma fixture_Do_POST:
  "fixture_Do \<lparr>Method = ''POST'', URL = fixture_base @ ''/groups/G/members'',
               Body = Some (bytes_NewReader b), Header = h\<rparr> w = fixture_ok b (w @ b)"
  by (simp add: fixture_Do_def Let_def)

lemma Request_response_ok:
  "Request_response X \<lparr>StatusCode = 200, RespBody = Inr b\<rparr> = (Some b, None)"
  by (simp add: Request_response_def Status_defs)

lemmas fixture_eval =
  fixture_Request_None fixture_Do_request_for fixture_Do_GET fixture_ok_def
  Request_response_ok fixture_simps

section \<open>Status classification\<close>


lemma fixture_status:
  "Request fixture_extern fixture_client ''DELETE'' ''/groups/G/members/Z'' ContentJSON None
     fixture_net =
   ((None, Some (XMErr ErrNoContent)),
    \<lparr>world = ''AB'',
      calls = [request_for fixture_client ''DELETE'' ''/groups/G/members/Z'' ContentJSON None]\<rparr>)"
  "Request fixture_extern fixture_client ''GET'' ''/status/401'' ContentJSON None fixture_net =
     ((None, Some (XMErr ErrInavlidCredentials)),
      \<lparr>world = ''AB'',
        calls = [request_for fixture_client ''GET'' ''/status/401'' ContentJSON None]\<rparr>)"
  "Request fixture_extern fixture_client ''GET'' ''/status/201'' ContentJSON None fixture_net =
     ((Some ''created'', None),
      \<lparr>world = ''AB'',
        calls = [request_for fixture_client ''GET'' ''/status/201'' ContentJSON None]\<rparr>)"
  "Request fixture_extern fixture_client ''GET'' ''/nowhere'' ContentJSON None fixture_net =
     ((None, Some (XMErr \<lparr>Code = 404, Reason = ''Not Found'', Message = ''no such resource'',
                           Subcode = ''''\<rparr>)),
      \<lparr>world = ''AB'',
        calls = [request_for fixture_client ''GET'' ''/nowhere'' ContentJSON None]\<rparr>)"
  using fixture_Do_DELETE[of "''Z''"]
  by (simp_all add: fixture_eval Request_response_def Status_defs newXMattersError_def)

lemma fixture_answers:
  "httpClient fixture_client
     (request_for fixture_client ''DELETE'' ''/groups/G/members/Z'' ContentJSON None)
     (world fixture_net) = (Inr \<lparr>StatusCode = 204, RespBody = Inr ''''\<rparr>, ''AB'')"
  "httpClient fixture_client (request_for fixture_client ''GET'' ''/status/401'' ContentJSON None)
     (world fixture_net) = (Inr \<lparr>StatusCode = 401, RespBody = Inr ''''\<rparr>, ''AB'')"
  "httpClient fixture_client (request_for fixture_client ''GET'' ''/status/201'' ContentJSON None)
     (world fixture_net) = (Inr \<lparr>StatusCode = 201, RespBody = Inr ''created''\<rparr>, ''AB'')"
  "httpClient fixture_client (request_for fixture_client ''GET'' ''/nowhere'' ContentJSON None)
     (world fixture_net) = (Inr \<lparr>StatusCode = 404, RespBody = Inr ''not found''\<rparr>, ''AB'')"
  using fixture_Do_DELETE[of "''Z''"]
  by (simp_all add: fixture_eval)


section \<open>The request body\<close>

lemma Request_sent_calls:
  assumes b: "Request_reqBody X body = Inr reqBody"
      and n: "NewRequest_error X httpMethod (BaseURL xmatters @ uri) = None"
  shows "calls (snd (Request X xmatters httpMethod uri contentType body s)) =
           calls s @ [request_for xmatters httpMethod uri contentType reqBody]"
proof -
  obtain result w' where
    d: "httpClient xmatters (request_for xmatters httpMethod uri contentType reqBody) (world s)
          = (result, w')"
    by (cases "httpClient xmatters (request_for xmatters httpMethod uri contentType reqBody)
                 (world s)")
  show ?thesis
    unfolding Request_sent[OF b n d] by simp
qed

text \<open>
  C8. The form of the request body is chosen by the dynamic type of \<open>body\<close> alone. A
  \<^verbatim>\<open>nil\<close> body sends a request without body; a reader is sent as it is and a byte
  slice is sent as it is (wrapped in a reader), whatever \<^verbatim>\<open>json.Marshal\<close> would make of
  them; any other value is sent as its JSON encoding; and when that encoding fails,
  \<open>Request\<close> returns the wrapped encoding error with the state unchanged: no request
  has been sent. (The first four need a method and URL that \<^verbatim>\<open>http.NewRequest\<close>
  accepts.)
\<close>

theorem Request_body_forms:
  "(NewRequest_error X httpMethod (BaseURL xmatters @ uri) = None \<longrightarrow>
      calls (snd (Request X xmatters httpMethod uri contentType None s)) =
        calls s @ [request_for xmatters httpMethod uri contentType None]
    \<and> calls (snd (Request X xmatters httpMethod uri contentType (Some (IOReader r)) s)) =
        calls s @ [request_for xmatters httpMethod uri contentType (Some (CallerReader r))]
    \<and> calls (snd (Request X xmatters httpMethod uri contentType (Some (ByteSlice paramBytes)) s)) =
        calls s @ [request_for xmatters httpMethod uri contentType
                     (Some (bytes_NewReader paramBytes))]
    \<and> (json_Marshal X (OtherValue v) = Inr jsonBody \<longrightarrow>
        calls (snd (Request X xmatters httpMethod uri contentType (Some (OtherValue v)) s)) =
          calls s @ [request_for xmatters httpMethod uri contentType
                       (Some (bytes_NewReader jsonBody))]))
   \<and> (json_Marshal X (OtherValue v) = Inl err \<longrightarrow>
        Request X xmatters httpMethod uri contentType (Some (OtherValue v)) s =
          ((None, Some (Errorf ''error marshalling body to JSON: '' err '''')), s))"
  by (simp add: Request_sent_calls Request_not_sent Request_reqBody_def)

lemma fixture_Request_body:
  "calls (snd (Request fixture_extern fixture_client ''POST'' ''/groups/G/members'' ContentJSON
                 (Some (OtherValue (fixture_member CHR ''C''))) fixture_net)) =
     [\<lparr>Method = ''POST'', URL = ''https://acme.example/api/xm/1/groups/G/members'',
       Body = Some (bytes_NewReader ''C''),
       Header = [''Content-Type'' \<mapsto> [''application/json''],
                 ''User-Agent'' \<mapsto> [''xmatters-go/1'']]\<rparr>]"
  by (simp add: Request_sent_calls[where reqBody = "Some (bytes_NewReader ''C'')"]
        Request_reqBody_def fixture_member_def fixture_simps request_for_def fixture_base_def
        ContentJSON_def)

theorem Request_body_forms_witness:
  "NewRequest_error fixture_extern ''POST'' (BaseURL fixture_client @ ''/groups/G/members'') = None
   \<and> json_Marshal fixture_extern (OtherValue (fixture_member CHR ''C'')) = Inr ''C''
   \<and> calls (snd (Request fixture_extern fixture_client ''POST'' ''/groups/G/members'' ContentJSON
                    (Some (OtherValue (fixture_member CHR ''C''))) fixture_net)) =
        [request_for fixture_client ''POST'' ''/groups/G/members'' ContentJSON
           (Some (bytes_NewReader ''C''))]
   \<and> calls (snd (Request fixture_extern fixture_client ''POST'' ''/groups/G/members'' ContentJSON
                    (Some (ByteSlice ''C'')) fixture_net)) =
        [request_for fixture_client ''POST'' ''/groups/G/members'' ContentJSON
           (Some (bytes_NewReader ''C''))]
   \<and> calls (snd (Request fixture_extern fixture_client ''POST'' ''/groups/G/members'' ContentJSON
                    (Some (IOReader (fixture_member CHR ''C''))) fixture_net)) =
        [request_for fixture_client ''POST'' ''/groups/G/members'' ContentJSON
           (Some (CallerReader (fixture_member CHR ''C'')))]
   \<and> json_Marshal fixture_extern (OtherValue None) = Inl (ExternalError ''json: unsupported value'')
   \<and> Request fixture_extern fixture_client ''POST'' ''/groups/G/members'' ContentJSON
        (Some (OtherValue None)) fixture_net =
        ((None, Some (Errorf ''error marshalling body to JSON: ''
                        (ExternalError ''json: unsupported value'') '''')), fixture_net)"
  using Request_body_forms[of fixture_extern "''POST''" fixture_client "''/groups/G/members''"
          ContentJSON fixture_net "fixture_member CHR ''C''" "''C''" "fixture_member CHR ''C''"
          "''C''" "ExternalError ''json: unsupported value''"]
        Request_body_forms[of fixture_extern "''POST''" fixture_client "''/groups/G/members''"
          ContentJSON fixture_net "fixture_member CHR ''C''" "''C''" None
          "''C''" "ExternalError ''json: unsupported value''"]
  by (simp add: fixture_simps fixture_member_def)

section \<open>Rate limit and retry policy\<close>

lemma Request_ignores_rateLimiter:
  "Request X (xmatters\<lparr>rateLimiter := l\<rparr>) httpMethod uri contentType body s =
   Request X xmatters httpMethod uri contentType body s"
  by (simp add: Request_def cong: sum.case_cong)

lemma Request_ignores_retryPolicy:
  "Request X (xmatters\<lparr>retryPolicy := p\<rparr>) httpMethod uri contentType body s =
   Request X xmatters httpMethod uri contentType body s"
  by (simp add: Request_def cong: sum.case_cong)

text \<open>
  C3, as the code has it. A client built without options has no rate limiter at all (the
  field is \<^verbatim>\<open>nil\<close>, not a limiter of 4 requests per second and burst 1), and a client
  built with \<^verbatim>\<open>WithRateLimit\<close> differs from it in that field only, which \<open>Request\<close> never
  reads: every call of \<open>Request\<close> gives the same result and sends the same request on
  both, with no permit acquired on either.
\<close>

theorem rateLimiter_never_consulted:
  "\<exists>xmatters xmatters'.
     newClient X hostname [] = (Some xmatters, None)
     \<and> rateLimiter xmatters = None
     \<and> newClient X hostname [WithRateLimit rps] = (Some xmatters', None)
     \<and> rateLimiter xmatters' = Some \<lparr>limit = rps, burst = 1\<rparr>
     \<and> (\<forall>httpMethod uri contentType body s.
           Request X xmatters' httpMethod uri contentType body s =
           Request X xmatters httpMethod uri contentType body s)"
proof -
  obtain xmatters where a: "newClient X hostname [] = (Some xmatters, None)"
    by (simp add: newClient_def Let_def)
  let ?xmatters' = "xmatters\<lparr>rateLimiter := Some \<lparr>limit = rps, burst = 1\<rparr>\<rparr>"
  from a have b: "newClient X hostname [WithRateLimit rps] = (Some ?xmatters', None)"
    by (auto simp: newClient_def WithRateLimit_def Let_def)
  from a have c: "rateLimiter xmatters = None"
    by (auto simp: newClient_def Let_def)
  have d: "rateLimiter ?xmatters' = Some \<lparr>limit = rps, burst = 1\<rparr>"
    by simp
  from a b c d Request_ignores_rateLimiter[where xmatters = xmatters] show ?thesis
    by blast
qed

text \<open>
  C4, as the code has it. \<^verbatim>\<open>WithRetryPolicy\<close> stores the policy in a field that nothing
  reads. The client's transport is the library's default retrying client whatever the
  policy, and every call of \<open>Request\<close> on a client built with a policy gives the same
  result as on a client built without one.
\<close>

theorem retryPolicy_never_applied:
  "\<exists>xmatters xmatters'.
     newClient X hostname [] = (Some xmatters, None)
     \<and> newClient X hostname [WithRetryPolicy maxRetries minRetryDelaySecs maxRetryDelaySecs]
         = (Some xmatters', None)
     \<and> MaxRetries (retryPolicy xmatters') = maxRetries
     \<and> httpClient xmatters' = retryablehttp_StandardClient X
     \<and> httpClient xmatters = retryablehttp_StandardClient X
     \<and> (\<forall>httpMethod uri contentType body s.
           Request X xmatters' httpMethod uri contentType body s =
           Request X xmatters httpMethod uri contentType body s)"
proof -
  obtain xmatters where a: "newClient X hostname [] = (Some xmatters, None)"
    by (simp add: newClient_def Let_def)
  let ?policy = "\<lparr>MaxRetries = maxRetries,
                  MinRetryDelay = word_of_int minRetryDelaySecs * 1000000000,
                  MaxRetryDelay = word_of_int maxRetryDelaySecs * 1000000000\<rparr>"
  let ?xmatters' = "xmatters\<lparr>retryPolicy := ?policy\<rparr>"
  from a
  have b: "newClient X hostname [WithRetryPolicy maxRetries minRetryDelaySecs maxRetryDelaySecs]
             = (Some ?xmatters', None)"
    by (auto simp: newClient_def WithRetryPolicy_def Let_def)
  from a have c: "httpClient xmatters = retryablehttp_StandardClient X"
    by (auto simp: newClient_def Let_def)
  then have d: "httpClient ?xmatters' = retryablehttp_StandardClient X"
    by simp
  have e: "MaxRetries (retryPolicy ?xmatters') = maxRetries"
    by simp
  from a b c d e Request_ignores_retryPolicy[where xmatters = xmatters] show ?thesis
    by blast
qed

section \<open>The walk over a result set\<close>

text \<open>One step of the walk over a page that has a next link.\<close>

lemma GetGroupPaginationSet_next:
  assumes "Request X xmatters http_MethodGet uri ContentJSON None s = ((resp, None), s1)"
      and "json_Unmarshal_GroupPagination X (bytes_of resp) = Inr page"
      and "GroupPagination_Pagination page = Some pagination"
      and "Links pagination = Some links"
      and "Next links = Some next"
  shows "GetGroupPaginationSet X xmatters uri s =
           Option.bind
             (GetGroupPaginationSet X xmatters (strings_ReplaceAll next defaultBasePath '''') s1)
             (\<lambda>(r, s2).
                case r of
                  Panic \<Rightarrow> Some (Panic, s2)
                | Return (nextSet, Some err) \<Rightarrow> Some (Return ([], Some err), s2)
                | Return (nextSet, None) \<Rightarrow> Some (Return (Groups page @ nextSet, None), s2))"
  by (subst GetGroupPaginationSet.simps) (simp add: assms)

lemma GetGroupPaginationSet_last:
  assumes "Request X xmatters http_MethodGet uri ContentJSON None s = ((resp, None), s1)"
      and "json_Unmarshal_GroupPagination X (bytes_of resp) = Inr page"
      and "GroupPagination_Pagination page = Some pagination"
      and "Links pagination = Some links"
      and "Next links = None"
  shows "GetGroupPaginationSet X xmatters uri s = Some (Return (Groups page, None), s1)"
  by (subst GetGroupPaginationSet.simps) (simp add: assms)

text \<open>The walk of groups over a result set.\<close>

lemma GetGroupPaginationSet_pages:
  assumes "group_pages X xmatters uri s pages s'"
  shows "GetGroupPaginationSet X xmatters uri s =
           Some (Return (concat (map Groups pages), None), s')"
  using assms
proof (induction rule: group_pages.induct)
  case (last_page uri s resp s1 page pagination links)
  then show ?case by (simp add: GetGroupPaginationSet_last)
next
  case (next_page uri s resp s1 page pagination links "next" pages s')
  then show ?case by (simp add: GetGroupPaginationSet_next)
qed

lemma fixture_groups_1:
  "Request fixture_extern fixture_client http_MethodGet ''/groups'' ContentJSON None fixture_net =
     ((Some ''groups 1 of 2'', None),
      \<lparr>world = ''AB'',
        calls = [request_for fixture_client ''GET'' ''/groups'' ContentJSON None]\<rparr>)"
  by (simp add: fixture_eval Method_defs)

lemma fixture_groups_2:
  "Request fixture_extern fixture_client http_MethodGet ''/groups?offset=2'' ContentJSON None
     \<lparr>world = ''AB'', calls = [request_for fixture_client ''GET'' ''/groups'' ContentJSON None]\<rparr> =
     ((Some ''groups 2 of 2'', None),
      \<lparr>world = ''AB'',
        calls = [request_for fixture_client ''GET'' ''/groups'' ContentJSON None,
                 request_for fixture_client ''GET'' ''/groups?offset=2'' ContentJSON None]\<rparr>)"
  by (simp add: fixture_eval Method_defs)

lemma strip_fixture_next:
  "strings_ReplaceAll ''/api/xm/1/groups?offset=2'' defaultBasePath '''' = ''/groups?offset=2''"
  by (simp add: defaultBasePath_def)

lemma fixture_group_pages:
  "group_pages fixture_extern fixture_client ''/groups'' fixture_net
     [\<lparr>GroupPagination_Pagination =
          Some \<lparr>Count = Some 2, Total = Some 3,
                 Links = Some \<lparr>Next = Some ''/api/xm/1/groups?offset=2'', Previous = None,
                               Self = None\<rparr>\<rparr>,
        Groups = [''g1'', ''g2'']\<rparr>,
      \<lparr>GroupPagination_Pagination =
          Some \<lparr>Count = Some 1, Total = Some 3,
                 Links = Some \<lparr>Next = None, Previous = None, Self = None\<rparr>\<rparr>,
        Groups = [''g3'']\<rparr>]
     \<lparr>world = ''AB'',
       calls = [request_for fixture_client ''GET'' ''/groups'' ContentJSON None,
                request_for fixture_client ''GET'' ''/groups?offset=2'' ContentJSON None]\<rparr>"
  apply (rule group_pages.next_page[OF fixture_groups_1])
       apply (simp add: fixture_simps fixture_page_defs bytes_of_def)
      apply simp
     apply simp
    apply simp
  apply (simp only: strip_fixture_next)
  apply (rule group_pages.last_page[OF fixture_groups_2])
     apply (simp add: fixture_simps fixture_page_defs bytes_of_def)
    apply simp
   apply simp
  apply simp
  done

section \<open>A failing page\<close>

lemma GetGroupPaginationSet_fetch_fails:
  "Request X xmatters http_MethodGet uri ContentJSON None s = ((resp, Some err), s1) \<Longrightarrow>
   GetGroupPaginationSet X xmatters uri s = Some (Return ([], Some err), s1)"
  by (subst GetGroupPaginationSet.simps) simp

lemma GetGroupPaginationSet_decode_fails:
  "Request X xmatters http_MethodGet uri ContentJSON None s = ((resp, None), s1) \<Longrightarrow>
   json_Unmarshal_GroupPagination X (bytes_of resp) = Inl e \<Longrightarrow>
   GetGroupPaginationSet X xmatters uri s =
     Some (Return ([], Some (newUnmarshalError ''GetGroupPaginationSet'')), s1)"
  by (subst GetGroupPaginationSet.simps) simp

lemma GetGroupPaginationSet_fails:
  assumes "group_pages_fail X xmatters uri s err s'"
  shows "GetGroupPaginationSet X xmatters uri s = Some (Return ([], Some err), s')"
  using assms
proof (induction rule: group_pages_fail.induct)
  case (fetch_fails uri s resp err s1)
  then show ?case by (rule GetGroupPaginationSet_fetch_fails)
next
  case (decode_fails uri s resp s1 e)
  then show ?case by (rule GetGroupPaginationSet_decode_fails)
next
  case (later_fails uri s resp s1 page pagination links "next" err s')
  then show ?case by (simp add: GetGroupPaginationSet_next)
qed

lemma GetGroupRosterPaginationSet_fetch_fails:
  "Request X xmatters http_MethodGet uri ContentJSON None s = ((resp, Some err), s1) \<Longrightarrow>
   GetGroupRosterPaginationSet X xmatters uri s = Some (Return (GroupRoster_zero, Some err), s1)"
  by (subst GetGroupRosterPaginationSet.simps) simp

lemma GetGroupRosterPaginationSet_decode_fails:
  "Request X xmatters http_MethodGet uri ContentJSON None s = ((resp, None), s1) \<Longrightarrow>
   json_Unmarshal_GroupMembershipPagination X (bytes_of resp) = Inl e \<Longrightarrow>
   GetGroupRosterPaginationSet X xmatters uri s =
     Some (Return (GroupRoster_zero, Some (newUnmarshalError ''GetGroupRosterPaginationSet'')), s1)"
  by (subst GetGroupRosterPaginationSet.simps) simp

text \<open>The walk of a roster at a page with memberships, none of them \<^verbatim>\<open>null\<close>, and
  with links.\<close>

lemma GetGroupRosterPaginationSet_page:
  assumes "Request X xmatters http_MethodGet uri ContentJSON None s = ((resp, None), s1)"
      and "json_Unmarshal_GroupMembershipPagination X (bytes_of resp) = Inr page"
      and "Memberships page \<noteq> []"
      and "memberList_loop (Memberships page) [] = Return memberList"
      and "Links page = Some links"
  shows "GetGroupRosterPaginationSet X xmatters uri s =
     Option.bind
       (case Next links of
          None \<Rightarrow> Some (Return (memberList, None), s1)
        | Some next \<Rightarrow>
            Option.bind
              (GetGroupRosterPaginationSet X xmatters
                 (strings_ReplaceAll next defaultBasePath '''') s1)
              (\<lambda>(r, s2).
                 case r of
                   Panic \<Rightarrow> Some (Panic, s2)
                 | Return (nextSet, Some err) \<Rightarrow> Some (Return ([], Some err), s2)
                 | Return (nextSet, None) \<Rightarrow>
                     Some (Return (memberList @ Members nextSet, None), s2)))
       (\<lambda>(r, s').
          case r of
            Panic \<Rightarrow> Some (Panic, s')
          | Return (_, Some err) \<Rightarrow> Some (Return (GroupRoster_zero, Some err), s')
          | Return (members, None) \<Rightarrow>
              (case Memberships page of
                 Some first # _ \<Rightarrow>
                   Some (Return
                     (\<lparr>GroupRoster_ID = GroupReference_ID (GroupMembership_Group first),
                       GroupRoster_Group = Some (GroupMembership_Group first),
                       Members = members\<rparr>, None), s')
               | _ \<Rightarrow> Some (Panic, s')))"
  by (subst GetGroupRosterPaginationSet.simps) (simp add: assms)

lemma GetGroupRosterPaginationSet_fails:
  assumes "roster_pages_fail X xmatters uri s err s'"
  shows "GetGroupRosterPaginationSet X xmatters uri s =
           Some (Return (GroupRoster_zero, Some err), s')"
  using assms
proof (induction rule: roster_pages_fail.induct)
  case (roster_fetch_fails uri s resp err s1)
  then show ?case by (rule GetGroupRosterPaginationSet_fetch_fails)
next
  case (roster_decode_fails uri s resp s1 e)
  then show ?case by (rule GetGroupRosterPaginationSet_decode_fails)
next
  case (roster_later_fails uri s resp s1 page memberList links "next" err s')
  then show ?case by (simp add: GetGroupRosterPaginationSet_page)
qed

text \<open>Whatever the walk returns together with an error is empty.\<close>

lemma GetGroupPaginationSet_error_empty:
  assumes "GetGroupPaginationSet X xmatters uri s = Some (Return (groups, Some err), s')"
  shows "groups = []"
proof -
  obtain resp e s1 where
    r: "Request X xmatters http_MethodGet uri ContentJSON None s = ((resp, e), s1)"
    by (metis surj_pair)
  show ?thesis
  proof (cases e)
    case (Some err')
    with r assms show ?thesis by (simp add: GetGroupPaginationSet_fetch_fails)
  next
    case None
    note r = r[unfolded None]
    show ?thesis
    proof (cases "json_Unmarshal_GroupPagination X (bytes_of resp)")
      case (Inl e')
      with r assms show ?thesis by (simp add: GetGroupPaginationSet_decode_fails)
    next
      case (Inr page)
      from assms r Inr show ?thesis
        by (subst (asm) GetGroupPaginationSet.simps)
           (auto split: option.splits Option.bind_splits outcome.splits)
    qed
  qed
qed

lemma GetGroupRosterPaginationSet_error_zero:
  assumes "GetGroupRosterPaginationSet X xmatters uri s = Some (Return (roster, Some err), s')"
  shows "roster = GroupRoster_zero"
proof -
  obtain resp e s1 where
    r: "Request X xmatters http_MethodGet uri ContentJSON None s = ((resp, e), s1)"
    by (metis surj_pair)
  show ?thesis
  proof (cases e)
    case (Some err')
    with r assms show ?thesis by (simp add: GetGroupRosterPaginationSet_fetch_fails)
  next
    case None
    note r = r[unfolded None]
    show ?thesis
    proof (cases "json_Unmarshal_GroupMembershipPagination X (bytes_of resp)")
      case (Inl e')
      with r assms show ?thesis by (simp add: GetGroupRosterPaginationSet_decode_fails)
    next
      case (Inr page)
      from assms r Inr show ?thesis
        by (subst (asm) GetGroupRosterPaginationSet.simps)
           (auto split: option.splits Option.bind_splits outcome.splits if_splits list.splits)
    qed
  qed
qed

text \<open>
  C6. When, after any number of pages, the fetch of a page fails or its envelope does not
  decode, the walk returns that error together with the empty collection (for a roster:
  the zero roster): the elements of the earlier pages are dropped. And whenever a walk
  returns an error, what it returns with it is empty: there is no partial result.
\<close>

theorem walk_failure_discards_pages:
  "(group_pages_fail X xmatters uri s err s' \<longrightarrow>
      GetGroupPaginationSet X xmatters uri s = Some (Return ([], Some err), s'))
   \<and> (roster_pages_fail X xmatters uri s err s' \<longrightarrow>
      GetGroupRosterPaginationSet X xmatters uri s =
        Some (Return (GroupRoster_zero, Some err), s'))
   \<and> (GetGroupPaginationSet X xmatters uri s = Some (Return (groups, Some err), s') \<longrightarrow>
      groups = [])
   \<and> (GetGroupRosterPaginationSet X xmatters uri s = Some (Return (roster, Some err), s') \<longrightarrow>
      roster = GroupRoster_zero)"
proof (intro conjI impI)
  assume "group_pages_fail X xmatters uri s err s'"
  then show "GetGroupPaginationSet X xmatters uri s = Some (Return ([], Some err), s')"
    by (rule GetGroupPaginationSet_fails)
next
  assume "roster_pages_fail X xmatters uri s err s'"
  then show "GetGroupRosterPaginationSet X xmatters uri s =
               Some (Return (GroupRoster_zero, Some err), s')"
    by (rule GetGroupRosterPaginationSet_fails)
next
  assume "GetGroupPaginationSet X xmatters uri s = Some (Return (groups, Some err), s')"
  then show "groups = []"
    by (rule GetGroupPaginationSet_error_empty)
next
  assume "GetGroupRosterPaginationSet X xmatters uri s = Some (Return (roster, Some err), s')"
  then show "roster = GroupRoster_zero"
    by (rule GetGroupRosterPaginationSet_error_zero)
qed

lemma fixture_down:
  "Request fixture_extern fixture_client http_MethodGet ''/down'' ContentJSON None
     \<lparr>world = ''AB'', calls = cs\<rparr> =
     ((None, Some (Errorf ''HTTP request failed: '' (ExternalError ''connection refused'') '''')),
      \<lparr>world = ''AB'',
        calls = cs @ [request_for fixture_client ''GET'' ''/down'' ContentJSON None]\<rparr>)"
  by (simp add: fixture_eval Method_defs)

lemma fixture_then_down:
  "Request fixture_extern fixture_client http_MethodGet ''/groups/then/down'' ContentJSON None
     fixture_net =
     ((Some ''groups then down'', None),
      \<lparr>world = ''AB'',
        calls = [request_for fixture_client ''GET'' ''/groups/then/down'' ContentJSON None]\<rparr>)"
  "Request fixture_extern fixture_client http_MethodGet ''/groups/D/members'' ContentJSON None
     fixture_net =
     ((Some ''roster then down'', None),
      \<lparr>world = ''AB'',
        calls = [request_for fixture_client ''GET'' ''/groups/D/members'' ContentJSON None]\<rparr>)"
  by (simp_all add: fixture_eval Method_defs)

lemma strip_fixture_down:
  "strings_ReplaceAll ''/api/xm/1/down'' defaultBasePath '''' = ''/down''"
  by (simp add: defaultBasePath_def)

lemma fixture_group_pages_fail:
  "group_pages_fail fixture_extern fixture_client ''/groups/then/down'' fixture_net
     (Errorf ''HTTP request failed: '' (ExternalError ''connection refused'') '''')
     \<lparr>world = ''AB'',
       calls = [request_for fixture_client ''GET'' ''/groups/then/down'' ContentJSON None,
                request_for fixture_client ''GET'' ''/down'' ContentJSON None]\<rparr>"
  apply (rule group_pages_fail.later_fails[OF fixture_then_down(1)])
      apply (simp add: fixture_simps fixture_page_defs bytes_of_def)
     apply simp
    apply simp
   apply simp
  apply (simp only: strip_fixture_down)
  apply (rule group_pages_fail.fetch_fails[where resp = None])
  apply (simp add: fixture_down)
  done

lemma fixture_roster_pages_fail:
  "roster_pages_fail fixture_extern fixture_client ''/groups/D/members'' fixture_net
     (Errorf ''HTTP request failed: '' (ExternalError ''connection refused'') '''')
     \<lparr>world = ''AB'',
       calls = [request_for fixture_client ''GET'' ''/groups/D/members'' ContentJSON None,
                request_for fixture_client ''GET'' ''/down'' ContentJSON None]\<rparr>"
  apply (rule roster_pages_fail.roster_later_fails[OF fixture_then_down(2)])
       apply (simp add: fixture_simps fixture_page_defs bytes_of_def)
      apply simp
     apply simp
    apply simp
   apply simp
  apply (simp only: strip_fixture_down)
  apply (rule roster_pages_fail.roster_fetch_fails[where resp = None])
  apply (simp add: fixture_down)
  done

theorem walk_failure_discards_pages_witness:
  "GetGroupPaginationSet fixture_extern fixture_client ''/groups/then/down'' fixture_net =
     Some (Return ([], Some (Errorf ''HTTP request failed: ''
                               (ExternalError ''connection refused'') '''')),
           \<lparr>world = ''AB'',
             calls = [request_for fixture_client ''GET'' ''/groups/then/down'' ContentJSON None,
                      request_for fixture_client ''GET'' ''/down'' ContentJSON None]\<rparr>)
   \<and> GetGroupRosterPaginationSet fixture_extern fixture_client ''/groups/D/members'' fixture_net =
     Some (Return (GroupRoster_zero,
                   Some (Errorf ''HTTP request failed: ''
                           (ExternalError ''connection refused'') '''')),
           \<lparr>world = ''AB'',
             calls = [request_for fixture_client ''GET'' ''/groups/D/members'' ContentJSON None,
                      request_for fixture_client ''GET'' ''/down'' ContentJSON None]\<rparr>)"
proof -
  let ?err = "Errorf ''HTTP request failed: '' (ExternalError ''connection refused'') ''''"
  let ?sg = "\<lparr>world = ''AB'',
              calls = [request_for fixture_client ''GET'' ''/groups/then/down'' ContentJSON None,
                       request_for fixture_client ''GET'' ''/down'' ContentJSON None]\<rparr>"
  let ?sr = "\<lparr>world = ''AB'',
              calls = [request_for fixture_client ''GET'' ''/groups/D/members'' ContentJSON None,
                       request_for fixture_client ''GET'' ''/down'' ContentJSON None]\<rparr>"
  have g: "GetGroupPaginationSet fixture_extern fixture_client ''/groups/then/down'' fixture_net
             = Some (Return ([], Some ?err), ?sg)"
    using walk_failure_discards_pages[of fixture_extern fixture_client "''/groups/then/down''"
            fixture_net ?err ?sg "[]" GroupRoster_zero] fixture_group_pages_fail
    by blast
  have r: "GetGroupRosterPaginationSet fixture_extern fixture_client ''/groups/D/members''
             fixture_net = Some (Return (GroupRoster_zero, Some ?err), ?sr)"
    using walk_failure_discards_pages[of fixture_extern fixture_client "''/groups/D/members''"
            fixture_net ?err ?sr "[]" GroupRoster_zero] fixture_roster_pages_fail
    by blast
  from g r show ?thesis by simp
qed

section \<open>Pages without links, and pages without memberships\<close>

lemma GetGroupPaginationSet_no_links:
  assumes "Request X xmatters http_MethodGet uri ContentJSON None s = ((resp, None), s1)"
      and "json_Unmarshal_GroupPagination X (bytes_of resp) = Inr page"
      and "Option.bind (GroupPagination_Pagination page) Links = None"
  shows "GetGroupPaginationSet X xmatters uri s = Some (Panic, s1)"
proof (cases "GroupPagination_Pagination page")
  case None
  with assms show ?thesis
    by (subst GetGroupPaginationSet.simps) simp
next
  case (Some pagination)
  with assms have "Links pagination = None" by simp
  with assms Some show ?thesis
    by (subst GetGroupPaginationSet.simps) simp
qed

lemma GetGroupRosterPaginationSet_no_links:
  assumes "Request X xmatters http_MethodGet uri ContentJSON None s = ((resp, None), s1)"
      and "json_Unmarshal_GroupMembershipPagination X (bytes_of resp) = Inr page"
      and "Links page = None"
      and "Memberships page \<noteq> []"
  shows "GetGroupRosterPaginationSet X xmatters uri s = Some (Panic, s1)"
  using assms
  by (subst GetGroupRosterPaginationSet.simps) (simp split: outcome.splits)

lemma GetGroupRosterPaginationSet_empty_page:
  assumes "Request X xmatters http_MethodGet uri ContentJSON None s = ((resp, None), s1)"
      and "json_Unmarshal_GroupMembershipPagination X (bytes_of resp) = Inr page"
      and "Memberships page = []"
  shows "GetGroupRosterPaginationSet X xmatters uri s = Some (Return (GroupRoster_zero, None), s1)"
  using assms
  by (subst GetGroupRosterPaginationSet.simps) simp

text \<open>
  C9, as the code has it. A page that decodes with success but has no pagination object,
  or one without links, makes the walk of groups panic at the test for a next link,
  after that page's request and before any other. The walk of a roster panics in the
  same way at a page without links that has at least one membership; a page without
  memberships it returns from before it looks at the links, with the zero roster
  and no error.
\<close>

theorem walk_panics_without_links:
  "(Request X xmatters http_MethodGet uri ContentJSON None s = ((resp, None), t)
      \<and> json_Unmarshal_GroupPagination X (bytes_of resp) = Inr page
      \<and> Option.bind (GroupPagination_Pagination page) Links = None
    \<longrightarrow> GetGroupPaginationSet X xmatters uri s = Some (Panic, t))
   \<and> (Request X xmatters http_MethodGet uri ContentJSON None s = ((resp, None), t)
      \<and> json_Unmarshal_GroupMembershipPagination X (bytes_of resp) = Inr rpage
      \<and> Links rpage = None \<and> Memberships rpage \<noteq> []
    \<longrightarrow> GetGroupRosterPaginationSet X xmatters uri s = Some (Panic, t))
   \<and> (Request X xmatters http_MethodGet uri ContentJSON None s = ((resp, None), t)
      \<and> json_Unmarshal_GroupMembershipPagination X (bytes_of resp) = Inr rpage
      \<and> Links rpage = None \<and> Memberships rpage = []
    \<longrightarrow> GetGroupRosterPaginationSet X xmatters uri s =
          Some (Return (GroupRoster_zero, None), t))"
  by (simp add: GetGroupPaginationSet_no_links GetGroupRosterPaginationSet_no_links
        GetGroupRosterPaginationSet_empty_page)

lemma fixture_GET_ok:
  "Request fixture_extern fixture_client http_MethodGet ''/groups/data/only'' ContentJSON None
     fixture_net =
     ((Some ''groups data only'', None),
      \<lparr>world = ''AB'',
        calls = [request_for fixture_client ''GET'' ''/groups/data/only'' ContentJSON None]\<rparr>)"
  "Request fixture_extern fixture_client http_MethodGet ''/groups/no/links'' ContentJSON None
     fixture_net =
     ((Some ''groups no links'', None),
      \<lparr>world = ''AB'',
        calls = [request_for fixture_client ''GET'' ''/groups/no/links'' ContentJSON None]\<rparr>)"
  "Request fixture_extern fixture_client http_MethodGet ''/groups/N/members'' ContentJSON None
     fixture_net =
     ((Some ''roster no links'', None),
      \<lparr>world = ''AB'',
        calls = [request_for fixture_client ''GET'' ''/groups/N/members'' ContentJSON None]\<rparr>)"
  "Request fixture_extern fixture_client http_MethodGet ''/groups/Z/members'' ContentJSON None
     fixture_net =
     ((Some ''roster empty no links'', None),
      \<lparr>world = ''AB'',
        calls = [request_for fixture_client ''GET'' ''/groups/Z/members'' ContentJSON None]\<rparr>)"
  "Request fixture_extern fixture_client http_MethodGet ''/groups/E/members'' ContentJSON None
     fixture_net =
     ((Some ''roster empty with next'', None),
      \<lparr>world = ''AB'',
        calls = [request_for fixture_client ''GET'' ''/groups/E/members'' ContentJSON None]\<rparr>)"
  "Request fixture_extern fixture_client http_MethodGet ''/groups/R/members'' ContentJSON None
     fixture_net =
     ((Some ''roster 1 of 2'', None),
      \<lparr>world = ''AB'',
        calls = [request_for fixture_client ''GET'' ''/groups/R/members'' ContentJSON None]\<rparr>)"
  by (simp_all add: fixture_eval Method_defs)

lemma fixture_decode:
  "json_Unmarshal_GroupPagination fixture_extern (bytes_of (Some ''groups data only'')) =
     Inr \<lparr>GroupPagination_Pagination = None, Groups = [''g1'']\<rparr>"
  "json_Unmarshal_GroupPagination fixture_extern (bytes_of (Some ''groups no links'')) =
     Inr \<lparr>GroupPagination_Pagination = Some \<lparr>Count = Some 1, Total = Some 1, Links = None\<rparr>,
          Groups = [''g1'']\<rparr>"
  "json_Unmarshal_GroupMembershipPagination fixture_extern (bytes_of (Some ''roster no links'')) =
     Inr \<lparr>Count = Some 1, Total = None, Links = None,
          Memberships = [fixture_membership ''N'' CHR ''a'']\<rparr>"
  "json_Unmarshal_GroupMembershipPagination fixture_extern
     (bytes_of (Some ''roster empty no links'')) =
     Inr \<lparr>Count = Some 0, Total = None, Links = None, Memberships = []\<rparr>"
  "json_Unmarshal_GroupMembershipPagination fixture_extern
     (bytes_of (Some ''roster empty with next'')) =
     Inr \<lparr>Count = Some 0, Total = None,
          Links = Some \<lparr>Next = Some ''/api/xm/1/groups/R/members'', Previous = None, Self = None\<rparr>,
          Memberships = []\<rparr>"
  "json_Unmarshal_GroupMembershipPagination fixture_extern (bytes_of (Some ''roster 1 of 2'')) =
     Inr \<lparr>Count = Some 1, Total = None,
          Links = Some \<lparr>Next = Some ''/api/xm/1/groups/R/members?offset=1'', Previous = None,
                        Self = None\<rparr>,
          Memberships = [fixture_membership ''R'' CHR ''a'']\<rparr>"
  by (simp_all add: fixture_simps fixture_GroupPagination_def fixture_GroupMembershipPagination_def
        fixture_groups_def fixture_roster_def fixture_links_def bytes_of_def)

theorem walk_panics_without_links_witness:
  "GetGroupPaginationSet fixture_extern fixture_client ''/groups/data/only'' fixture_net =
     Some (Panic,
           \<lparr>world = ''AB'',
             calls = [request_for fixture_client ''GET'' ''/groups/data/only'' ContentJSON None]\<rparr>)
   \<and> GetGroupPaginationSet fixture_extern fixture_client ''/groups/no/links'' fixture_net =
     Some (Panic,
           \<lparr>world = ''AB'',
             calls = [request_for fixture_client ''GET'' ''/groups/no/links'' ContentJSON None]\<rparr>)
   \<and> GetGroupRosterPaginationSet fixture_extern fixture_client ''/groups/N/members'' fixture_net =
     Some (Panic,
           \<lparr>world = ''AB'',
             calls = [request_for fixture_client ''GET'' ''/groups/N/members'' ContentJSON None]\<rparr>)
   \<and> GetGroupRosterPaginationSet fixture_extern fixture_client ''/groups/Z/members'' fixture_net =
     Some (Return (GroupRoster_zero, None),
           \<lparr>world = ''AB'',
             calls = [request_for fixture_client ''GET'' ''/groups/Z/members'' ContentJSON None]\<rparr>)"
  using walk_panics_without_links[where X = fixture_extern and xmatters = fixture_client
          and uri = "''/groups/data/only''" and s = fixture_net
          and resp = "Some ''groups data only''"
          and page = "\<lparr>GroupPagination_Pagination = None, Groups = [''g1'']\<rparr>"]
        walk_panics_without_links[where X = fixture_extern and xmatters = fixture_client
          and uri = "''/groups/no/links''" and s = fixture_net
          and resp = "Some ''groups no links''"
          and page = "\<lparr>GroupPagination_Pagination =
                          Some \<lparr>Count = Some 1, Total = Some 1, Links = None\<rparr>,
                        Groups = [''g1'']\<rparr>"]
        walk_panics_without_links[where X = fixture_extern and xmatters = fixture_client
          and uri = "''/groups/N/members''" and s = fixture_net
          and resp = "Some ''roster no links''"
          and rpage = "\<lparr>Count = Some 1, Total = None, Links = None,
                         Memberships = [fixture_membership ''N'' CHR ''a'']\<rparr>"]
        walk_panics_without_links[where X = fixture_extern and xmatters = fixture_client
          and uri = "''/groups/Z/members''" and s = fixture_net
          and resp = "Some ''roster empty no links''"
          and rpage = "\<lparr>Count = Some 0, Total = None, Links = None, Memberships = []\<rparr>"]
  by (simp add: fixture_GET_ok fixture_decode)

text \<open>Stated for every walk, the property fails for the walk of a roster, at a page
  that decodes with success and has no links and no memberships: the walk returns, it
  does not panic.\<close>

theorem walk_panics_without_links_counterexample:
  "Request fixture_extern fixture_client http_MethodGet ''/groups/Z/members'' ContentJSON None
     fixture_net =
     ((Some ''roster empty no links'', None),
      \<lparr>world = ''AB'',
        calls = [request_for fixture_client ''GET'' ''/groups/Z/members'' ContentJSON None]\<rparr>)
   \<and> json_Unmarshal_GroupMembershipPagination fixture_extern ''roster empty no links'' =
       Inr \<lparr>Count = Some 0, Total = None, Links = None, Memberships = []\<rparr>
   \<and> GetGroupRosterPaginationSet fixture_extern fixture_client ''/groups/Z/members'' fixture_net \<noteq>
       Some (Panic,
             \<lparr>world = ''AB'',
               calls = [request_for fixture_client ''GET'' ''/groups/Z/members'' ContentJSON None]\<rparr>)"
  using fixture_decode(4)
  by (simp add: fixture_GET_ok GetGroupRosterPaginationSet_empty_page[OF fixture_GET_ok(4)]
        bytes_of_def)

lemma Request_None_ok_calls:
  assumes "Request X xmatters httpMethod uri contentType None s = ((resp, None), s1)"
  shows "calls s1 = calls s @ [request_for xmatters httpMethod uri contentType None]"
proof (cases rule: Request_cases[of X xmatters httpMethod uri contentType None s])
  case (unsent err)
  with assms show ?thesis by simp
next
  case (sent reqBody result w')
  from sent(1) have "reqBody = None" by (simp add: Request_reqBody_def)
  with sent(4) assms show ?thesis by auto
qed

lemma GetGroupRosterPaginationSet_first_entry:
  assumes r: "Request X xmatters http_MethodGet uri ContentJSON None s = ((resp, None), s1)"
      and d: "json_Unmarshal_GroupMembershipPagination X (bytes_of resp) = Inr page"
      and m: "Memberships page = first # rest"
      and w: "GetGroupRosterPaginationSet X xmatters uri s = Some (Return (roster, None), s')"
  shows "\<exists>member. first = Some member
           \<and> GroupRoster_ID roster = GroupReference_ID (GroupMembership_Group member)
           \<and> GroupRoster_Group roster = Some (GroupMembership_Group member)"
proof (cases "memberList_loop (Memberships page) []")
  case Panic
  with r d m w show ?thesis
    by (subst (asm) GetGroupRosterPaginationSet.simps) simp
next
  case (Return memberList)
  show ?thesis
  proof (cases "Links page")
    case None
    with r d m w show ?thesis
      by (simp add: GetGroupRosterPaginationSet_no_links)
  next
    case (Some links)
    from m have ne: "Memberships page \<noteq> []" by simp
    from w show ?thesis
      unfolding GetGroupRosterPaginationSet_page[OF r d ne Return Some]
      by (auto simp: m split: Option.bind_splits outcome.splits option.splits)
  qed
qed

text \<open>
  C10. In the walk of a roster, a fetched page that decodes to no memberships makes the
  call return the zero roster (no identifier, no group, no members) and no error, in the
  state right after that page's own request: nothing else is requested, whether the page
  has a next link or not. And when the call fetches a page with memberships and returns
  a roster, the roster's identifier and group are those of the group of the page's
  first membership.
\<close>

theorem roster_walk_empty_page_and_group:
  "(Request X xmatters http_MethodGet uri ContentJSON None s = ((resp, None), t)
      \<and> json_Unmarshal_GroupMembershipPagination X (bytes_of resp) = Inr page
      \<and> Memberships page = []
    \<longrightarrow> GetGroupRosterPaginationSet X xmatters uri s = Some (Return (GroupRoster_zero, None), t)
        \<and> calls t = calls s @ [request_for xmatters ''GET'' uri ContentJSON None]
        \<and> GroupRoster_ID GroupRoster_zero = None \<and> GroupRoster_Group GroupRoster_zero = None
        \<and> Members GroupRoster_zero = [])
   \<and> (Request X xmatters http_MethodGet uri ContentJSON None s = ((resp, None), t)
      \<and> json_Unmarshal_GroupMembershipPagination X (bytes_of resp) = Inr page
      \<and> Memberships page = first # rest
      \<and> GetGroupRosterPaginationSet X xmatters uri s = Some (Return (roster, None), s')
    \<longrightarrow> (\<exists>member. first = Some member
           \<and> GroupRoster_ID roster = GroupReference_ID (GroupMembership_Group member)
           \<and> GroupRoster_Group roster = Some (GroupMembership_Group member)))"
proof (intro conjI impI)
  assume a: "Request X xmatters http_MethodGet uri ContentJSON None s = ((resp, None), t)
      \<and> json_Unmarshal_GroupMembershipPagination X (bytes_of resp) = Inr page
      \<and> Memberships page = []"
  then show "GetGroupRosterPaginationSet X xmatters uri s =
               Some (Return (GroupRoster_zero, None), t)"
    by (simp add: GetGroupRosterPaginationSet_empty_page)
  from a show "calls t = calls s @ [request_for xmatters ''GET'' uri ContentJSON None]"
    using Request_None_ok_calls[of X xmatters http_MethodGet uri ContentJSON s resp t]
    by (simp add: Method_defs)
  show "GroupRoster_ID GroupRoster_zero = None" "GroupRoster_Group GroupRoster_zero = None"
       "Members GroupRoster_zero = []"
    by (simp_all add: GroupRoster_zero_def)
next
  assume "Request X xmatters http_MethodGet uri ContentJSON None s = ((resp, None), t)
      \<and> json_Unmarshal_GroupMembershipPagination X (bytes_of resp) = Inr page
      \<and> Memberships page = first # rest
      \<and> GetGroupRosterPaginationSet X xmatters uri s = Some (Return (roster, None), s')"
  then show "\<exists>member. first = Some member
           \<and> GroupRoster_ID roster = GroupReference_ID (GroupMembership_Group member)
           \<and> GroupRoster_Group roster = Some (GroupMembership_Group member)"
    using GetGroupRosterPaginationSet_first_entry by blast
qed

lemma fixture_roster_R:
  "GetGroupRosterPaginationSet fixture_extern fixture_client ''/groups/R/members'' fixture_net =
     Some (Return
             (\<lparr>GroupRoster_ID = Some ''R'',
               GroupRoster_Group =
                 Some \<lparr>GroupReference_ID = Some ''R'', GroupReference_TargetName = None,
                        GroupReference_RecipientType = Some ''GROUP'', GroupType = None\<rparr>,
               Members = [fixture_member CHR ''a'', fixture_member CHR ''b'',
                          fixture_member CHR ''c'']\<rparr>, None),
           \<lparr>world = ''AB'',
             calls = [request_for fixture_client ''GET'' ''/groups/R/members'' ContentJSON None,
                      request_for fixture_client ''GET'' ''/groups/R/members?offset=1''
                        ContentJSON None]\<rparr>)"
  by (simp add: GetGroupRosterPaginationSet.simps fixture_eval Method_defs fixture_page_defs
        fixture_member_def bytes_of_def defaultBasePath_def)

theorem roster_walk_empty_page_and_group_witness:
  "GetGroupRosterPaginationSet fixture_extern fixture_client ''/groups/E/members'' fixture_net =
     Some (Return (GroupRoster_zero, None),
           \<lparr>world = ''AB'',
             calls = [request_for fixture_client ''GET'' ''/groups/E/members'' ContentJSON None]\<rparr>)
   \<and> (\<exists>roster s'.
         GetGroupRosterPaginationSet fixture_extern fixture_client ''/groups/R/members'' fixture_net
           = Some (Return (roster, None), s')
         \<and> GroupRoster_ID roster = Some ''R''
         \<and> GroupRoster_Group roster =
             Some \<lparr>GroupReference_ID = Some ''R'', GroupReference_TargetName = None,
                    GroupReference_RecipientType = Some ''GROUP'', GroupType = None\<rparr>)"
proof -
  have e: "GetGroupRosterPaginationSet fixture_extern fixture_client ''/groups/E/members''
             fixture_net =
           Some (Return (GroupRoster_zero, None),
                 \<lparr>world = ''AB'',
                   calls = [request_for fixture_client ''GET'' ''/groups/E/members''
                              ContentJSON None]\<rparr>)"
    using roster_walk_empty_page_and_group[where X = fixture_extern and xmatters = fixture_client
            and uri = "''/groups/E/members''" and s = fixture_net
            and resp = "Some ''roster empty with next''"
            and page = "\<lparr>Count = Some 0, Total = None,
                          Links = Some \<lparr>Next = Some ''/api/xm/1/groups/R/members'',
                                        Previous = None, Self = None\<rparr>,
                          Memberships = []\<rparr>"]
    by (simp add: fixture_GET_ok fixture_decode)
  let ?roster = "\<lparr>GroupRoster_ID = Some ''R'',
                  GroupRoster_Group =
                    Some \<lparr>GroupReference_ID = Some ''R'', GroupReference_TargetName = None,
                           GroupReference_RecipientType = Some ''GROUP'', GroupType = None\<rparr>,
                  Members = [fixture_member CHR ''a'', fixture_member CHR ''b'',
                             fixture_member CHR ''c'']\<rparr>"
  have r: "\<exists>member. fixture_membership ''R'' CHR ''a'' = Some member
             \<and> GroupRoster_ID ?roster = GroupReference_ID (GroupMembership_Group member)
             \<and> GroupRoster_Group ?roster = Some (GroupMembership_Group member)"
    using roster_walk_empty_page_and_group[where X = fixture_extern and xmatters = fixture_client
            and uri = "''/groups/R/members''" and s = fixture_net
            and resp = "Some ''roster 1 of 2''"
            and t = "\<lparr>world = ''AB'',
                        calls = [request_for fixture_client ''GET'' ''/groups/R/members''
                                   ContentJSON None]\<rparr>"
            and page = "\<lparr>Count = Some 1, Total = None,
                          Links = Some \<lparr>Next = Some ''/api/xm/1/groups/R/members?offset=1'',
                                        Previous = None, Self = None\<rparr>,
                          Memberships = [fixture_membership ''R'' CHR ''a'']\<rparr>"
            and first = "fixture_membership ''R'' CHR ''a''" and rest = "[]"
            and roster = ?roster
            and s' = "\<lparr>world = ''AB'',
                        calls = [request_for fixture_client ''GET'' ''/groups/R/members''
                                   ContentJSON None,
                                 request_for fixture_client ''GET'' ''/groups/R/members?offset=1''
                                   ContentJSON None]\<rparr>", THEN conjunct2]
    by (simp only: fixture_GET_ok fixture_decode fixture_roster_R simp_thms
          GroupMembershipPagination.simps)
  from e r fixture_roster_R show ?thesis
    by (auto simp: fixture_membership_def)
qed

section \<open>The walks over a result set, page by page\<close>

lemma memberList_loop_member_refs:
  "list_all (\<lambda>m. m \<noteq> None) ms \<Longrightarrow> memberList_loop ms acc = Return (acc @ member_refs ms)"
  by (induction ms acc rule: memberList_loop.induct) (simp_all add: member_refs_def)

text \<open>The walk of a roster over a result set: it goes no further than the first page
  without memberships.\<close>

lemma GetGroupRosterPaginationSet_pages:
  assumes "roster_pages X xmatters uri s pages"
  shows "\<exists>roster t.
           GetGroupRosterPaginationSet X xmatters uri s = Some (Return (roster, None), t)
           \<and> Members roster =
               concat (map (\<lambda>page. member_refs (Memberships page))
                         (takeWhile (\<lambda>page. Memberships page \<noteq> []) pages))"
  using assms
proof (induction rule: roster_pages.induct)
  case (roster_last_page uri s resp t page links)
  show ?case
  proof (cases "Memberships page = []")
    case True
    with GetGroupRosterPaginationSet_empty_page[OF roster_last_page(1,2) True]
    show ?thesis by (simp add: GroupRoster_zero_def)
  next
    case False
    from roster_last_page(3) False obtain first rest where
      f: "Memberships page = Some first # rest"
      by (cases "Memberships page") auto
    from memberList_loop_member_refs[OF roster_last_page(3), of "[]"]
    have m: "memberList_loop (Memberships page) [] = Return (member_refs (Memberships page))"
      by simp
    from GetGroupRosterPaginationSet_page[OF roster_last_page(1,2) False m roster_last_page(4)]
      roster_last_page(5) f False
    show ?thesis by simp
  qed
next
  case (roster_next_page uri s resp t page links "next" pages)
  show ?case
  proof (cases "Memberships page = []")
    case True
    with GetGroupRosterPaginationSet_empty_page[OF roster_next_page(1,2) True]
    show ?thesis by (simp add: GroupRoster_zero_def)
  next
    case False
    from roster_next_page(3) False obtain first rest where
      f: "Memberships page = Some first # rest"
      by (cases "Memberships page") auto
    from memberList_loop_member_refs[OF roster_next_page(3), of "[]"]
    have m: "memberList_loop (Memberships page) [] = Return (member_refs (Memberships page))"
      by simp
    from roster_next_page.IH obtain nextSet u where
      n: "GetGroupRosterPaginationSet X xmatters (strings_ReplaceAll next defaultBasePath '''') t
            = Some (Return (nextSet, None), u)"
      and k: "Members nextSet =
                concat (map (\<lambda>page. member_refs (Memberships page))
                          (takeWhile (\<lambda>page. Memberships page \<noteq> []) pages))"
      by blast
    from GetGroupRosterPaginationSet_page[OF roster_next_page(1,2) False m roster_next_page(4)]
      roster_next_page(5) f False n k
    show ?thesis by simp
  qed
qed


lemma fixture_GET_roster:
  "Request fixture_extern fixture_client http_MethodGet ''/groups/R/members?offset=1''
     ContentJSON None
     \<lparr>world = ''AB'',
       calls = [request_for fixture_client ''GET'' ''/groups/R/members'' ContentJSON None]\<rparr> =
     ((Some ''roster 2 of 2'', None),
      \<lparr>world = ''AB'',
        calls = [request_for fixture_client ''GET'' ''/groups/R/members'' ContentJSON None,
                 request_for fixture_client ''GET'' ''/groups/R/members?offset=1''
                   ContentJSON None]\<rparr>)"
  "Request fixture_extern fixture_client http_MethodGet ''/groups/H/members'' ContentJSON None
     fixture_net =
     ((Some ''roster before hole'', None),
      \<lparr>world = ''AB'',
        calls = [request_for fixture_client ''GET'' ''/groups/H/members'' ContentJSON None]\<rparr>)"
  "Request fixture_extern fixture_client http_MethodGet ''/groups/H/members?offset=1''
     ContentJSON None
     \<lparr>world = ''AB'',
       calls = [request_for fixture_client ''GET'' ''/groups/H/members'' ContentJSON None]\<rparr> =
     ((Some ''roster hole'', None),
      \<lparr>world = ''AB'',
        calls = [request_for fixture_client ''GET'' ''/groups/H/members'' ContentJSON None,
                 request_for fixture_client ''GET'' ''/groups/H/members?offset=1''
                   ContentJSON None]\<rparr>)"
  "Request fixture_extern fixture_client http_MethodGet ''/groups/H/members?offset=2''
     ContentJSON None
     \<lparr>world = ''AB'',
       calls = [request_for fixture_client ''GET'' ''/groups/H/members'' ContentJSON None,
                request_for fixture_client ''GET'' ''/groups/H/members?offset=1''
                  ContentJSON None]\<rparr> =
     ((Some ''roster after hole'', None),
      \<lparr>world = ''AB'',
        calls = [request_for fixture_client ''GET'' ''/groups/H/members'' ContentJSON None,
                 request_for fixture_client ''GET'' ''/groups/H/members?offset=1''
                   ContentJSON None,
                 request_for fixture_client ''GET'' ''/groups/H/members?offset=2''
                   ContentJSON None]\<rparr>)"
  by (simp_all add: fixture_eval Method_defs)

lemma fixture_decode_roster:
  "json_Unmarshal_GroupMembershipPagination fixture_extern (bytes_of (Some ''roster 2 of 2'')) =
     Inr \<lparr>Count = Some 2, Total = None,
          Links = Some \<lparr>Next = None, Previous = None, Self = None\<rparr>,
          Memberships = [fixture_membership ''R2'' CHR ''b'', fixture_membership ''R2'' CHR ''c'']\<rparr>"
  "json_Unmarshal_GroupMembershipPagination fixture_extern
     (bytes_of (Some ''roster before hole'')) =
     Inr \<lparr>Count = Some 1, Total = None,
          Links = Some \<lparr>Next = Some ''/api/xm/1/groups/H/members?offset=1'', Previous = None,
                        Self = None\<rparr>,
          Memberships = [fixture_membership ''H'' CHR ''a'']\<rparr>"
  "json_Unmarshal_GroupMembershipPagination fixture_extern (bytes_of (Some ''roster hole'')) =
     Inr \<lparr>Count = Some 0, Total = None,
          Links = Some \<lparr>Next = Some ''/api/xm/1/groups/H/members?offset=2'', Previous = None,
                        Self = None\<rparr>,
          Memberships = []\<rparr>"
  "json_Unmarshal_GroupMembershipPagination fixture_extern
     (bytes_of (Some ''roster after hole'')) =
     Inr \<lparr>Count = Some 1, Total = None,
          Links = Some \<lparr>Next = None, Previous = None, Self = None\<rparr>,
          Memberships = [fixture_membership ''H'' CHR ''b'']\<rparr>"
  by (simp_all add: fixture_simps fixture_GroupMembershipPagination_def
        fixture_roster_def fixture_links_def bytes_of_def)

lemma strip_fixture_roster_next:
  "strings_ReplaceAll ''/api/xm/1/groups/R/members?offset=1'' defaultBasePath '''' =
     ''/groups/R/members?offset=1''"
  "strings_ReplaceAll ''/api/xm/1/groups/H/members?offset=1'' defaultBasePath '''' =
     ''/groups/H/members?offset=1''"
  "strings_ReplaceAll ''/api/xm/1/groups/H/members?offset=2'' defaultBasePath '''' =
     ''/groups/H/members?offset=2''"
  by (simp_all add: defaultBasePath_def)

text \<open>The roster of \<open>R\<close> comes in two pages, of one and of two members.\<close>

lemma fixture_roster_pages_R:
  "roster_pages fixture_extern fixture_client ''/groups/R/members'' fixture_net
     [\<lparr>Count = Some 1, Total = None,
       Links = Some \<lparr>Next = Some ''/api/xm/1/groups/R/members?offset=1'', Previous = None,
                     Self = None\<rparr>,
       Memberships = [fixture_membership ''R'' CHR ''a'']\<rparr>,
      \<lparr>Count = Some 2, Total = None,
       Links = Some \<lparr>Next = None, Previous = None, Self = None\<rparr>,
       Memberships = [fixture_membership ''R2'' CHR ''b'', fixture_membership ''R2'' CHR ''c'']\<rparr>]"
  apply (rule roster_pages.roster_next_page[OF fixture_GET_ok(6) fixture_decode(6)])
     apply (simp add: fixture_membership_def)
    apply simp
   apply simp
  apply (simp only: strip_fixture_roster_next PaginationLinks.simps option.sel)
  apply (rule roster_pages.roster_last_page[OF fixture_GET_roster(1) fixture_decode_roster(1)])
    apply (simp add: fixture_membership_def)
   apply simp
  apply simp
  done

text \<open>The roster of \<open>H\<close> comes in three pages: one member, none, one member.\<close>

lemma fixture_roster_pages_H:
  "roster_pages fixture_extern fixture_client ''/groups/H/members'' fixture_net
     [\<lparr>Count = Some 1, Total = None,
       Links = Some \<lparr>Next = Some ''/api/xm/1/groups/H/members?offset=1'', Previous = None,
                     Self = None\<rparr>,
       Memberships = [fixture_membership ''H'' CHR ''a'']\<rparr>,
      \<lparr>Count = Some 0, Total = None,
       Links = Some \<lparr>Next = Some ''/api/xm/1/groups/H/members?offset=2'', Previous = None,
                     Self = None\<rparr>,
       Memberships = []\<rparr>,
      \<lparr>Count = Some 1, Total = None,
       Links = Some \<lparr>Next = None, Previous = None, Self = None\<rparr>,
       Memberships = [fixture_membership ''H'' CHR ''b'']\<rparr>]"
  apply (rule roster_pages.roster_next_page[OF fixture_GET_roster(2) fixture_decode_roster(2)])
     apply (simp add: fixture_membership_def)
    apply simp
   apply simp
  apply (simp only: strip_fixture_roster_next PaginationLinks.simps option.sel)
  apply (rule roster_pages.roster_next_page[OF fixture_GET_roster(3) fixture_decode_roster(3)])
     apply simp
    apply simp
   apply simp
  apply (simp only: strip_fixture_roster_next PaginationLinks.simps option.sel)
  apply (rule roster_pages.roster_last_page[OF fixture_GET_roster(4) fixture_decode_roster(4)])
    apply (simp add: fixture_membership_def)
   apply simp
  apply simp
  done

lemma fixture_roster_H:
  "GetGroupRosterPaginationSet fixture_extern fixture_client ''/groups/H/members'' fixture_net =
     Some (Return
             (\<lparr>GroupRoster_ID = Some ''H'',
               GroupRoster_Group =
                 Some \<lparr>GroupReference_ID = Some ''H'', GroupReference_TargetName = None,
                        GroupReference_RecipientType = Some ''GROUP'', GroupType = None\<rparr>,
               Members = [fixture_member CHR ''a'']\<rparr>, None),
           \<lparr>world = ''AB'',
             calls = [request_for fixture_client ''GET'' ''/groups/H/members'' ContentJSON None,
                      request_for fixture_client ''GET'' ''/groups/H/members?offset=1''
                        ContentJSON None]\<rparr>)"
  by (simp add: GetGroupRosterPaginationSet.simps fixture_eval Method_defs fixture_page_defs
        fixture_member_def bytes_of_def defaultBasePath_def GroupRoster_zero_def)

lemma fixture_member_refs:
  "member_refs [fixture_membership g c] = [fixture_member c]"
  "member_refs [fixture_membership g c, fixture_membership g d] =
     [fixture_member c, fixture_member d]"
  "member_refs [] = []"
  by (simp_all add: member_refs_def fixture_membership_def fixture_member_def)



section \<open>The follow-up request\<close>

lemma strings_ReplaceAll_prefix:
  "old \<noteq> [] \<Longrightarrow>
   strings_ReplaceAll (old @ rest) old new = new @ strings_ReplaceAll rest old new"
  by (cases old) simp_all

lemma strings_ReplaceAll_absent:
  "\<not> sublist old s \<Longrightarrow> strings_ReplaceAll s old new = s"
proof (induction s old new rule: strings_ReplaceAll.induct)
  case (1 old new)
  show ?case by simp
next
  case (2 c cs old new)
  from 2(3) have np: "\<not> prefix old (c # cs)" and ns: "\<not> sublist old cs"
    by (auto simp: sublist_Cons_right)
  with 2(2) show ?case by simp
qed

lemma Request_calls_extend:
  "\<exists>rest. calls (snd (Request X xmatters httpMethod uri contentType body s)) = calls s @ rest"
  by (cases rule: Request_cases[of X xmatters httpMethod uri contentType body s]) auto

text \<open>The state a walk ends in is the state after its first request, or the state a
  walk from there ends in.\<close>

lemma GetGroupPaginationSet_state:
  assumes "Request X xmatters http_MethodGet uri ContentJSON None s = ((resp, e), t)"
      and "GetGroupPaginationSet X xmatters uri s = Some y"
  shows "snd y = t \<or> (\<exists>u y'. GetGroupPaginationSet X xmatters u t = Some y' \<and> snd y = snd y')"
  using assms
  by (subst (asm) GetGroupPaginationSet.simps)
     (auto split: option.splits sum.splits outcome.splits Option.bind_splits)

text \<open>A walk only adds to the trace of requests.\<close>

lemma GetGroupPaginationSet_calls_extend:
  assumes "GetGroupPaginationSet X xmatters uri s = Some y"
  shows "\<exists>rest. calls (snd y) = calls s @ rest"
proof (rule GetGroupPaginationSet.raw_induct
             [where P = "\<lambda>X xmatters uri s y. \<exists>rest. calls (snd y) = calls s @ rest",
              OF _ assms], goal_cases)
  case (1 walk X xmatters uri s y)
  obtain resp e t where
    r: "Request X xmatters http_MethodGet uri ContentJSON None s = ((resp, e), t)"
    by (metis surj_pair)
  from Request_calls_extend[of X xmatters http_MethodGet uri ContentJSON None s] r
  obtain rest1 where m: "calls t = calls s @ rest1" by auto
  have "snd y = t \<or> (\<exists>u y'. walk X xmatters u t = Some y' \<and> snd y = snd y')"
    using 1(2) unfolding r
    by (auto split: option.splits sum.splits outcome.splits Option.bind_splits)
  then show ?case
  proof
    assume "snd y = t"
    with m show ?thesis by simp
  next
    assume "\<exists>u y'. walk X xmatters u t = Some y' \<and> snd y = snd y'"
    then obtain u y' where w: "walk X xmatters u t = Some y'" and e: "snd y = snd y'" by blast
    from 1(1)[OF w] obtain rest2 where "calls (snd y') = calls t @ rest2" by blast
    with m e show ?thesis by simp
  qed
qed

text \<open>A walk that returns has first sent the request for its URI.\<close>

lemma GetGroupPaginationSet_first_call:
  assumes w: "GetGroupPaginationSet X xmatters uri s = Some y"
      and n: "NewRequest_error X http_MethodGet (BaseURL xmatters @ uri) = None"
  shows "\<exists>rest. calls (snd y) =
           calls s @ request_for xmatters ''GET'' uri ContentJSON None # rest"
proof -
  obtain resp e t where
    r: "Request X xmatters http_MethodGet uri ContentJSON None s = ((resp, e), t)"
    by (metis surj_pair)
  have "Request_reqBody X None = Inr None"
    by (simp add: Request_reqBody_def)
  from Request_sent_calls[OF this n, of ContentJSON s] r
  have c: "calls t = calls s @ [request_for xmatters ''GET'' uri ContentJSON None]"
    by (simp add: Method_defs)
  from GetGroupPaginationSet_state[OF r w] show ?thesis
  proof
    assume "snd y = t"
    with c show ?thesis by simp
  next
    assume "\<exists>u y'. GetGroupPaginationSet X xmatters u t = Some y' \<and> snd y = snd y'"
    then obtain u y' where
      w': "GetGroupPaginationSet X xmatters u t = Some y'" and e: "snd y = snd y'"
      by blast
    from GetGroupPaginationSet_calls_extend[OF w']
    obtain rest where "calls (snd y') = calls t @ rest" by blast
    with c e show ?thesis by simp
  qed
qed

lemma GetGroupPaginationSet_follow_up:
  assumes r: "Request X xmatters http_MethodGet uri ContentJSON None s = ((resp, None), t)"
      and d: "json_Unmarshal_GroupPagination X (bytes_of resp) = Inr page"
      and p: "GroupPagination_Pagination page = Some pagination"
      and l: "Links pagination = Some links"
      and x: "Next links = Some next"
      and n: "NewRequest_error X http_MethodGet
                (BaseURL xmatters @ strings_ReplaceAll next ''/api/xm/1'' '''') = None"
      and w: "GetGroupPaginationSet X xmatters uri s = Some (result, s')"
  shows "\<exists>rest. calls s' =
           calls s @ [request_for xmatters ''GET'' uri ContentJSON None,
                      request_for xmatters ''GET'' (strings_ReplaceAll next ''/api/xm/1'' '''')
                        ContentJSON None] @ rest"
proof -
  from w obtain y' where
    w': "GetGroupPaginationSet X xmatters (strings_ReplaceAll next ''/api/xm/1'' '''') t = Some y'"
    and e: "snd y' = s'"
    unfolding GetGroupPaginationSet_next[OF r d p l x]
    by (auto simp: defaultBasePath_def split: Option.bind_splits outcome.splits option.splits)
  from GetGroupPaginationSet_first_call[OF w' n] e
  obtain rest where
    "calls s' = calls t @ request_for xmatters ''GET''
                            (strings_ReplaceAll next ''/api/xm/1'' '''') ContentJSON None # rest"
    by auto
  moreover from Request_None_ok_calls[OF r]
  have "calls t = calls s @ [request_for xmatters ''GET'' uri ContentJSON None]"
    by (simp add: Method_defs)
  ultimately show ?thesis by simp
qed


lemma fixture_not_sublist:
  "\<not> sublist ''/api/xm/1'' ''/groups?offset=2''"
  by (simp add: sublist_Cons_right)



section \<open>Roster reconciliation\<close>

text \<open>When \<open>ContainsMember\<close> returns, it has decided whether the identifier is
  among those of the target.\<close>

lemma ContainsMember_Return:
  "ContainsMember member target = Return b \<Longrightarrow>
   b = (GroupMember_ID member \<in> set (map member_id target))"
proof (induction member target rule: ContainsMember.induct)
  case (1 member)
  then show ?case by simp
next
  case (2 member target)
  then show ?case by simp
next
  case (3 member m target)
  then show ?case
    by (auto simp: member_id_def split: option.splits if_splits)
qed

text \<open>The identifiers of the entries kept are the set difference of the identifiers;
  the entries are kept one by one, so an identifier is kept as often as it occurs, and
  once when the identifiers of the list are distinct.\<close>

lemma absent_from_ids:
  "set (map member_id (absent_from others xs)) =
     set (map member_id xs) - set (map member_id others)"
  by (auto simp: absent_from_def)

lemma absent_from_distinct:
  "distinct (map member_id xs) \<Longrightarrow> distinct (map member_id (absent_from others xs))"
  by (simp add: absent_from_def distinct_map_filter)

lemma absent_from_Cons:
  "absent_from others (x # xs) =
     (if member_id x \<in> set (map member_id others) then absent_from others xs
      else x # absent_from others xs)"
  by (simp add: absent_from_def)

text \<open>What a delete call and a create call add to the trace, whatever they return:
  the request, or nothing when the request could not be built, which is an error.\<close>

lemma DeleteGroupMembership_calls:
  assumes "DeleteGroupMembership X xmatters groupId memberId s = (e, t)"
  shows "calls t = calls s @ [delete_call X xmatters groupId memberId]
         \<or> (calls t = calls s \<and> e \<noteq> None)"
proof (cases rule: Request_cases[of X xmatters http_MethodDelete
          "buildURI X (''/groups/'' @ groupId @ ''/members/'' @ memberId)" ContentJSON None s])
  case (unsent err)
  with assms show ?thesis
    by (auto simp: DeleteGroupMembership_def Let_def)
next
  case (sent reqBody result w')
  from sent(1) have "reqBody = None" by (simp add: Request_reqBody_def)
  with sent(4) assms
  have "calls t = calls s @ [delete_call X xmatters groupId memberId]"
    by (auto simp: DeleteGroupMembership_def Let_def delete_call_def Method_defs
             split: prod.splits option.splits sum.splits)
  then show ?thesis by simp
qed

lemma PushGroupMembership_calls:
  assumes "PushGroupMembership X xmatters groupId params s = ((result, e), t)"
  shows "(\<exists>jsonBody. json_Marshal X (OtherValue params) = Inr jsonBody
            \<and> calls t = calls s @ [create_call X xmatters groupId jsonBody])
         \<or> (calls t = calls s \<and> e \<noteq> None)"
proof (cases rule: Request_cases[of X xmatters http_MethodPost
          "buildURI X (''/groups/'' @ groupId @ ''/members'')" ContentJSON
          "Some (OtherValue params)" s])
  case (unsent err)
  with assms show ?thesis
    by (auto simp: PushGroupMembership_def Let_def)
next
  case (sent reqBody result' w')
  from sent(1) obtain jsonBody where
    j: "json_Marshal X (OtherValue params) = Inr jsonBody"
       "reqBody = Some (bytes_NewReader jsonBody)"
    by (auto simp: Request_reqBody_def split: sum.splits)
  with sent(4) assms
  have "calls t = calls s @ [create_call X xmatters groupId jsonBody]"
    by (auto simp: PushGroupMembership_def Let_def create_call_def Method_defs
             split: prod.splits option.splits sum.splits)
  with j show ?thesis by blast
qed

text \<open>The first loop, whatever its outcome: the delete calls sent are, in the order of
  the current roster, those for an initial part of the current entries whose identifier
  no desired entry has; for all of them when the loop ends without error; and an
  error it ends with is one a delete call returned, in the state that call left.\<close>

lemma PushGroupRoster_remove_trace:
  "PushGroupRoster_remove X xmatters groupId params current s = (a, t) \<Longrightarrow>
   \<exists>removed.
      prefix (map Some removed) (map member_id (absent_from params current))
      \<and> calls t = calls s @ map (delete_call X xmatters groupId) removed
      \<and> (a = Return None \<longrightarrow> map Some removed = map member_id (absent_from params current))
      \<and> (\<forall>err. a = Return (Some err) \<longrightarrow>
            (\<exists>memberId u. DeleteGroupMembership X xmatters groupId memberId u = (Some err, t)))"
proof (induction current arbitrary: s)
  case Nil
  then have "a = Return None" "t = s" by simp_all
  then show ?case by (simp add: absent_from_def)
next
  case (Cons x rest)
  let ?P = "\<lambda>current s removed.
      prefix (map Some removed) (map member_id (absent_from params current))
      \<and> calls t = calls s @ map (delete_call X xmatters groupId) removed
      \<and> (a = Return None \<longrightarrow> map Some removed = map member_id (absent_from params current))
      \<and> (\<forall>err. a = Return (Some err) \<longrightarrow>
            (\<exists>memberId u. DeleteGroupMembership X xmatters groupId memberId u = (Some err, t)))"
  have stop: "?P (x # rest) s []" if "a = Panic" "t = s"
    using that by simp
  show ?case
  proof (cases x)
    case None
    with Cons.prems have "a = Panic" "t = s" by simp_all
    from stop[OF this] show ?thesis by blast
  next
    case (Some member)
    show ?thesis
    proof (cases "ContainsMember member params")
      case Panic
      with Cons.prems Some have "a = Panic" "t = s" by simp_all
      from stop[OF this] show ?thesis by blast
    next
      case (Return b)
      note c = ContainsMember_Return[OF Return]
      show ?thesis
      proof (cases b)
        case True
        with Cons.prems Some Return
        have "PushGroupRoster_remove X xmatters groupId params rest s = (a, t)"
          by simp
        from Cons.IH[OF this] obtain removed where "?P rest s removed" by blast
        with c True Some have "?P (x # rest) s removed"
          by (simp add: absent_from_Cons member_id_def)
        then show ?thesis by blast
      next
        case False
        show ?thesis
        proof (cases "GroupMember_ID member")
          case None
          with Cons.prems Some Return False have "a = Panic" "t = s" by simp_all
          from stop[OF this] show ?thesis by blast
        next
          case (Some memberId)
          with c False \<open>x = Some member\<close>
          have keep: "absent_from params (x # rest) = x # absent_from params rest"
            and i: "member_id x = Some memberId"
            by (simp_all add: absent_from_Cons member_id_def)
          obtain e u where
            d: "DeleteGroupMembership X xmatters groupId memberId s = (e, u)"
            by (cases "DeleteGroupMembership X xmatters groupId memberId s")
          show ?thesis
          proof (cases e)
            case (Some err)
            with Cons.prems \<open>x = Some member\<close> Return False \<open>GroupMember_ID member = Some memberId\<close> d
            have r: "a = Return (Some err)" "t = u" by simp_all
            from DeleteGroupMembership_calls[OF d] Some
            consider "calls u = calls s @ [delete_call X xmatters groupId memberId]"
              | "calls u = calls s" by blast
            then show ?thesis
            proof cases
              case 1
              with r d Some keep i have "?P (x # rest) s [memberId]"
                by auto
              then show ?thesis by blast
            next
              case 2
              with r d Some keep i have "?P (x # rest) s []"
                by auto
              then show ?thesis by blast
            qed
          next
            case None
            with Cons.prems \<open>x = Some member\<close> Return False \<open>GroupMember_ID member = Some memberId\<close> d
            have "PushGroupRoster_remove X xmatters groupId params rest u = (a, t)"
              by simp
            from Cons.IH[OF this] obtain removed where p: "?P rest u removed" by blast
            from DeleteGroupMembership_calls[OF d] None
            have "calls u = calls s @ [delete_call X xmatters groupId memberId]"
              by simp
            with p keep i have "?P (x # rest) s (memberId # removed)"
              by simp
            then show ?thesis by blast
          qed
        qed
      qed
    qed
  qed
qed

text \<open>The second loop, whatever its outcome: the same for the create calls, in the
  order of the desired members.\<close>

lemma PushGroupRoster_add_trace:
  "PushGroupRoster_add X xmatters groupId current params s = (a, t) \<Longrightarrow>
   \<exists>bodies.
      prefix (map Inr bodies)
        (map (\<lambda>x. json_Marshal X (OtherValue x)) (absent_from current params))
      \<and> calls t = calls s @ map (create_call X xmatters groupId) bodies
      \<and> (a = Return None \<longrightarrow>
            map Inr bodies
              = map (\<lambda>x. json_Marshal X (OtherValue x)) (absent_from current params))
      \<and> (\<forall>err. a = Return (Some err) \<longrightarrow>
            (\<exists>member result u.
               PushGroupMembership X xmatters groupId member u = ((result, Some err), t)))"
proof (induction params arbitrary: s)
  case Nil
  then have "a = Return None" "t = s" by simp_all
  then show ?case by (simp add: absent_from_def)
next
  case (Cons x rest)
  let ?P = "\<lambda>params s bodies.
      prefix (map Inr bodies)
        (map (\<lambda>x. json_Marshal X (OtherValue x)) (absent_from current params))
      \<and> calls t = calls s @ map (create_call X xmatters groupId) bodies
      \<and> (a = Return None \<longrightarrow>
            map Inr bodies
              = map (\<lambda>x. json_Marshal X (OtherValue x)) (absent_from current params))
      \<and> (\<forall>err. a = Return (Some err) \<longrightarrow>
            (\<exists>member result u.
               PushGroupMembership X xmatters groupId member u = ((result, Some err), t)))"
  have stop: "?P (x # rest) s []" if "a = Panic" "t = s"
    using that by simp
  show ?case
  proof (cases x)
    case None
    with Cons.prems have "a = Panic" "t = s" by simp_all
    from stop[OF this] show ?thesis by blast
  next
    case (Some member)
    show ?thesis
    proof (cases "ContainsMember member current")
      case Panic
      with Cons.prems Some have "a = Panic" "t = s" by simp_all
      from stop[OF this] show ?thesis by blast
    next
      case (Return b)
      note c = ContainsMember_Return[OF Return]
      show ?thesis
      proof (cases b)
        case True
        with Cons.prems Some Return
        have "PushGroupRoster_add X xmatters groupId current rest s = (a, t)"
          by simp
        from Cons.IH[OF this] obtain bodies where "?P rest s bodies" by blast
        with c True Some have "?P (x # rest) s bodies"
          by (simp add: absent_from_Cons member_id_def)
        then show ?thesis by blast
      next
        case False
        with c Some
        have keep: "absent_from current (x # rest) = x # absent_from current rest"
          by (simp add: absent_from_Cons member_id_def)
        obtain result e u where
          d: "PushGroupMembership X xmatters groupId (Some member) s = ((result, e), u)"
          by (metis surj_pair)
        show ?thesis
        proof (cases e)
          case (Some err)
          with Cons.prems \<open>x = Some member\<close> Return False d
          have r: "a = Return (Some err)" "t = u" by simp_all
          from PushGroupMembership_calls[OF d] Some
          consider jsonBody where "json_Marshal X (OtherValue (Some member)) = Inr jsonBody"
              "calls u = calls s @ [create_call X xmatters groupId jsonBody]"
            | "calls u = calls s" by blast
          then show ?thesis
          proof cases
            case 1
            with r d Some keep \<open>x = Some member\<close> have "?P (x # rest) s [jsonBody]"
              by auto
            then show ?thesis by blast
          next
            case 2
            with r d Some keep have "?P (x # rest) s []"
              by auto
            then show ?thesis by blast
          qed
        next
          case None
          with Cons.prems \<open>x = Some member\<close> Return False d
          have "PushGroupRoster_add X xmatters groupId current rest u = (a, t)"
            by simp
          from Cons.IH[OF this] obtain bodies where p: "?P rest u bodies" by blast
          from PushGroupMembership_calls[OF d] None obtain jsonBody where
            "json_Marshal X (OtherValue (Some member)) = Inr jsonBody"
            "calls u = calls s @ [create_call X xmatters groupId jsonBody]"
            by auto
          with p keep \<open>x = Some member\<close> have "?P (x # rest) s (jsonBody # bodies)"
            by simp
          then show ?thesis by blast
        qed
      qed
    qed
  qed
qed

text \<open>\<^verbatim>\<open>GetGroupRoster\<close> returns the zero roster with an error, so what
  \<^verbatim>\<open>PushGroupRoster\<close> makes of its last fetch is what that fetch returned.\<close>

lemma GetGroupRoster_returned_as_is:
  "Option.bind (GetGroupRoster X xmatters groupId s)
     (\<lambda>(r, t).
        case r of
          Panic \<Rightarrow> Some (Panic, t)
        | Return (roster, Some err) \<Rightarrow> Some (Return (GroupRoster_zero, Some err), t)
        | Return (roster, None) \<Rightarrow> Some (Return (roster, None), t))
   = GetGroupRoster X xmatters groupId s"
  by (auto simp: GetGroupRoster_def split: Option.bind_splits outcome.splits option.splits)

text \<open>A reconciliation whose first fetch does not return a roster ends as that
  fetch did.\<close>

lemma PushGroupRoster_without_roster:
  assumes "\<forall>roster u. GetGroupRoster X xmatters groupId s \<noteq> Some (Return (roster, None), u)"
  shows "PushGroupRoster X xmatters groupId params s = GetGroupRoster X xmatters groupId s"
proof (cases "GetGroupRoster X xmatters groupId s")
  case None
  then show ?thesis by (simp add: PushGroupRoster_def)
next
  case (Some p)
  obtain r t where p: "p = (r, t)" by (cases p)
  show ?thesis
  proof (cases r)
    case Panic
    with Some p show ?thesis by (simp add: PushGroupRoster_def)
  next
    case (Return q)
    obtain roster e where q: "q = (roster, e)" by (cases q)
    from assms Some p Return q obtain err where e: "e = Some err" by (cases e) auto
    from GetGroupRoster_returned_as_is[of X xmatters groupId s] Some p Return q e
    have "roster = GroupRoster_zero" by simp
    with Some p Return q e show ?thesis by (simp add: PushGroupRoster_def)
  qed
qed

text \<open>A reconciliation whose first fetch returns the current roster.\<close>

lemma PushGroupRoster_with_roster:
  assumes cur: "GetGroupRoster X xmatters groupId s = Some (Return (currentRoster, None), t)"
  shows "\<exists>removed bodies v.
           prefix (map Some removed)
             (map member_id (absent_from desiredMembers (Members currentRoster)))
           \<and> prefix (map Inr bodies)
               (map (\<lambda>x. json_Marshal X (OtherValue x))
                  (absent_from (Members currentRoster) desiredMembers))
           \<and> (bodies \<noteq> [] \<longrightarrow>
                map Some removed
                  = map member_id (absent_from desiredMembers (Members currentRoster)))
           \<and> calls v = calls t @ map (delete_call X xmatters groupId) removed
                               @ map (create_call X xmatters groupId) bodies
           \<and> ((map Some removed
                  = map member_id (absent_from desiredMembers (Members currentRoster))
                \<and> map Inr bodies
                  = map (\<lambda>x. json_Marshal X (OtherValue x))
                      (absent_from (Members currentRoster) desiredMembers)
                \<and> PushGroupRoster X xmatters groupId desiredMembers s
                  = GetGroupRoster X xmatters groupId v)
               \<or> PushGroupRoster X xmatters groupId desiredMembers s = Some (Panic, v)
               \<or> (\<exists>err u.
                     PushGroupRoster X xmatters groupId desiredMembers s
                       = Some (Return (GroupRoster_zero, Some err), v)
                     \<and> ((\<exists>memberId.
                            DeleteGroupMembership X xmatters groupId memberId u = (Some err, v))
                         \<or> (\<exists>member result.
                              PushGroupMembership X xmatters groupId member u
                                = ((result, Some err), v)))))"
proof -
  let ?D = "map member_id (absent_from desiredMembers (Members currentRoster))"
  let ?A = "map (\<lambda>x. json_Marshal X (OtherValue x))
              (absent_from (Members currentRoster) desiredMembers)"
  let ?push = "PushGroupRoster X xmatters groupId desiredMembers s"
  let ?T = "\<lambda>removed bodies v.
           prefix (map Some removed) ?D
           \<and> prefix (map Inr bodies) ?A
           \<and> (bodies \<noteq> [] \<longrightarrow> map Some removed = ?D)
           \<and> calls v = calls t @ map (delete_call X xmatters groupId) removed
                               @ map (create_call X xmatters groupId) bodies
           \<and> ((map Some removed = ?D \<and> map Inr bodies = ?A
                \<and> ?push = GetGroupRoster X xmatters groupId v)
               \<or> ?push = Some (Panic, v)
               \<or> (\<exists>err u.
                     ?push = Some (Return (GroupRoster_zero, Some err), v)
                     \<and> ((\<exists>memberId.
                            DeleteGroupMembership X xmatters groupId memberId u = (Some err, v))
                         \<or> (\<exists>member result.
                              PushGroupMembership X xmatters groupId member u
                                = ((result, Some err), v)))))"
  obtain a u where
    rm: "PushGroupRoster_remove X xmatters groupId desiredMembers (Members currentRoster) t
           = (a, u)"
    by (metis surj_pair)
  from PushGroupRoster_remove_trace[OF rm] obtain removed where
    rp: "prefix (map Some removed) ?D"
    and rc: "calls u = calls t @ map (delete_call X xmatters groupId) removed"
    and rall: "a = Return None \<longrightarrow> map Some removed = ?D"
    and rerr: "\<forall>err. a = Return (Some err) \<longrightarrow>
                 (\<exists>memberId w. DeleteGroupMembership X xmatters groupId memberId w
                                  = (Some err, u))"
    by blast
  show ?thesis
  proof (cases a)
    case Panic
    with cur rm have "?push = Some (Panic, u)"
      by (simp add: PushGroupRoster_def)
    with rp rc have "?T removed [] u" by simp
    then show ?thesis by blast
  next
    case (Return e)
    show ?thesis
    proof (cases e)
      case (Some err)
      with cur rm Return have p: "?push = Some (Return (GroupRoster_zero, Some err), u)"
        by (simp add: PushGroupRoster_def)
      from rerr Return Some obtain memberId w where
        "DeleteGroupMembership X xmatters groupId memberId w = (Some err, u)"
        by blast
      with p rp rc have "?T removed [] u" by auto
      then show ?thesis by blast
    next
      case None
      with rall Return have rd: "map Some removed = ?D" by simp
      obtain b v where
        ad: "PushGroupRoster_add X xmatters groupId (Members currentRoster) desiredMembers u
               = (b, v)"
        by (metis surj_pair)
      from PushGroupRoster_add_trace[OF ad] obtain bodies where
        bp: "prefix (map Inr bodies) ?A"
        and bc: "calls v = calls u @ map (create_call X xmatters groupId) bodies"
        and ball: "b = Return None \<longrightarrow> map Inr bodies = ?A"
        and berr: "\<forall>err. b = Return (Some err) \<longrightarrow>
                     (\<exists>member result w.
                        PushGroupMembership X xmatters groupId member w
                          = ((result, Some err), v))"
        by blast
      from rc bc
      have c: "calls v = calls t @ map (delete_call X xmatters groupId) removed
                                 @ map (create_call X xmatters groupId) bodies"
        by simp
      show ?thesis
      proof (cases b)
        case Panic
        with cur rm Return None ad have "?push = Some (Panic, v)"
          by (simp add: PushGroupRoster_def)
        with rp bp rd c have "?T removed bodies v" by simp
        then show ?thesis by blast
      next
        case (Return e')
        show ?thesis
        proof (cases e')
          case (Some err)
          with cur rm \<open>a = Return e\<close> None ad Return
          have p: "?push = Some (Return (GroupRoster_zero, Some err), v)"
            by (simp add: PushGroupRoster_def)
          from berr Return Some obtain member result w where
            "PushGroupMembership X xmatters groupId member w = ((result, Some err), v)"
            by blast
          with p rp bp rd c have "?T removed bodies v" by auto
          then show ?thesis by blast
        next
          case None
          with ball Return have bd: "map Inr bodies = ?A" by simp
          from cur rm \<open>a = Return e\<close> \<open>e = None\<close> ad Return None
          have "?push = GetGroupRoster X xmatters groupId v"
            by (simp add: PushGroupRoster_def GetGroupRoster_returned_as_is)
          with rp bp rd bd c have "?T removed bodies v" by simp
          then show ?thesis by blast
        qed
      qed
    qed
  qed
qed


lemma fixture_Request_member:
  "GroupMember_ID m = Some i \<Longrightarrow> httpMethod \<noteq> ''BAD METHOD'' \<Longrightarrow>
   Request fixture_extern fixture_client httpMethod uri contentType
     (Some (OtherValue (Some m))) s =
     (case fixture_Do (request_for fixture_client httpMethod uri contentType
                         (Some (bytes_NewReader i))) (world s) of
        (result, w') \<Rightarrow>
          ((case result of
              Inl err \<Rightarrow> (None, Some (Errorf ''HTTP request failed: '' err ''''))
            | Inr response \<Rightarrow> Request_response fixture_extern response),
           \<lparr>world = w',
             calls = calls s @ [request_for fixture_client httpMethod uri contentType
                                  (Some (bytes_NewReader i))]\<rparr>))"
  by (rule fixture_Request) (simp_all add: Request_reqBody_def fixture_extern_simps)

lemma fixture_current_roster:
  "GetGroupRoster fixture_extern fixture_client ''G'' fixture_net =
     Some (Return (\<lparr>GroupRoster_ID = Some ''G'', GroupRoster_Group = Some fixture_group,
                     Members = [fixture_member CHR ''A'', fixture_member CHR ''B'']\<rparr>, None),
           \<lparr>world = ''AB'',
             calls = [request_for fixture_client ''GET'' ''/groups/G/members'' ContentJSON None]\<rparr>)"
  by (simp add: GetGroupRoster_def GetGroupRosterPaginationSet.simps buildURI_def fixture_eval
        Method_defs fixture_page_defs fixture_member_def fixture_group_def bytes_of_def)

lemma fixture_reconciled:
  "PushGroupRoster fixture_extern fixture_client ''G''
     [fixture_member CHR ''B'', fixture_member CHR ''C''] fixture_net =
     Some (Return (\<lparr>GroupRoster_ID = Some ''G'', GroupRoster_Group = Some fixture_group,
                     Members = [fixture_member CHR ''B'', fixture_member CHR ''C'']\<rparr>, None),
           \<lparr>world = ''BC'',
             calls = [request_for fixture_client ''GET'' ''/groups/G/members'' ContentJSON None,
                      request_for fixture_client ''DELETE'' ''/groups/G/members/A''
                        ContentJSON None,
                      request_for fixture_client ''POST'' ''/groups/G/members'' ContentJSON
                        (Some (bytes_NewReader ''C'')),
                      request_for fixture_client ''GET'' ''/groups/G/members''
                        ContentJSON None]\<rparr>)"
  using fixture_Do_DELETE[of "''A''"]
  by (simp add: PushGroupRoster_def GetGroupRoster_def GetGroupRosterPaginationSet.simps
        DeleteGroupMembership_def PushGroupMembership_def buildURI_def
        fixture_eval fixture_Request_member fixture_Do_POST
        Method_defs fixture_page_defs fixture_member_def fixture_group_def bytes_of_def)

lemma fixture_reconciled_twice:
  "PushGroupRoster fixture_extern fixture_client ''G''
     [fixture_member CHR ''B'', fixture_member CHR ''C'', fixture_member CHR ''C''] fixture_net =
     Some (Return (\<lparr>GroupRoster_ID = Some ''G'', GroupRoster_Group = Some fixture_group,
                     Members = [fixture_member CHR ''B'', fixture_member CHR ''C'',
                                fixture_member CHR ''C'']\<rparr>, None),
           \<lparr>world = ''BCC'',
             calls = [request_for fixture_client ''GET'' ''/groups/G/members'' ContentJSON None,
                      request_for fixture_client ''DELETE'' ''/groups/G/members/A''
                        ContentJSON None,
                      request_for fixture_client ''POST'' ''/groups/G/members'' ContentJSON
                        (Some (bytes_NewReader ''C'')),
                      request_for fixture_client ''POST'' ''/groups/G/members'' ContentJSON
                        (Some (bytes_NewReader ''C'')),
                      request_for fixture_client ''GET'' ''/groups/G/members''
                        ContentJSON None]\<rparr>)"
  using fixture_Do_DELETE[of "''A''"]
  by (simp add: PushGroupRoster_def GetGroupRoster_def GetGroupRosterPaginationSet.simps
        DeleteGroupMembership_def PushGroupMembership_def buildURI_def
        fixture_eval fixture_Request_member fixture_Do_POST
        Method_defs fixture_page_defs fixture_member_def fixture_group_def bytes_of_def)

lemma fixture_roster_AXB:
  "GetGroupRoster fixture_extern fixture_client ''G'' \<lparr>world = ''AXB'', calls = []\<rparr> =
     Some (Return (\<lparr>GroupRoster_ID = Some ''G'', GroupRoster_Group = Some fixture_group,
                     Members = [fixture_member CHR ''A'', fixture_member CHR ''X'',
                                fixture_member CHR ''B'']\<rparr>, None),
           \<lparr>world = ''AXB'',
             calls = [request_for fixture_client ''GET'' ''/groups/G/members'' ContentJSON None]\<rparr>)"
  by (simp add: GetGroupRoster_def GetGroupRosterPaginationSet.simps buildURI_def fixture_eval
        Method_defs fixture_page_defs fixture_member_def fixture_group_def bytes_of_def)

lemma fixture_delete_fails:
  "PushGroupRoster fixture_extern fixture_client ''G'' [] \<lparr>world = ''AXB'', calls = []\<rparr> =
     Some (Return (GroupRoster_zero,
                   Some (XMErr \<lparr>Code = 404, Reason = ''Not Found'',
                                Message = ''no such resource'', Subcode = ''''\<rparr>)),
           \<lparr>world = ''XB'',
             calls = [request_for fixture_client ''GET'' ''/groups/G/members'' ContentJSON None,
                      request_for fixture_client ''DELETE'' ''/groups/G/members/A''
                        ContentJSON None,
                      request_for fixture_client ''DELETE'' ''/groups/G/members/X''
                        ContentJSON None]\<rparr>)"
  using fixture_Do_DELETE[of "''A''"] fixture_Do_DELETE[of "''X''"]
  by (simp add: PushGroupRoster_def GetGroupRoster_def GetGroupRosterPaginationSet.simps
        DeleteGroupMembership_def buildURI_def newXMattersError_def
        Request_response_def fixture_eval Status_defs
        Method_defs fixture_page_defs fixture_member_def fixture_group_def bytes_of_def)

lemma fixture_roster_N:
  "GetGroupRoster fixture_extern fixture_client ''N'' fixture_net =
     Some (Panic,
           \<lparr>world = ''AB'',
             calls = [request_for fixture_client ''GET'' ''/groups/N/members'' ContentJSON None]\<rparr>)"
  by (simp add: GetGroupRoster_def GetGroupRosterPaginationSet.simps buildURI_def fixture_eval
        Method_defs fixture_page_defs fixture_member_def fixture_group_def bytes_of_def)



end
